theory Spec2Isabelle
  imports Main
begin

section \<open>Data model of the backup controller\<close>

text \<open>
  The controller under study is the second document of \<^verbatim>\<open>src/datastore/manifests.go\<close>
  (package \<^verbatim>\<open>controller\<close>, lines 41--570); the resource types are those of
  \<^verbatim>\<open>src/k8s/pkg/apis/longhorn/v1beta1/backup.go\<close>.

  A \<^verbatim>\<open>metav1.Time\<close> is modelled by the instant it denotes, an integer counted from Go's
  zero time, so that \<^verbatim>\<open>IsZero\<close> is equality with 0 and \<^verbatim>\<open>After\<close> is the strict order.
  A pointer to a time is an option, \<open>None\<close> being nil.
\<close>

type_synonym Time = int

definition IsZero :: "Time \<Rightarrow> bool" where
  "IsZero t = (t = 0)"

definition After :: "Time \<Rightarrow> Time \<Rightarrow> bool" where
  "After t u = (u < t)"

definition ptr_IsZero :: "Time option \<Rightarrow> bool" where
  "ptr_IsZero p = (case p of None \<Rightarrow> True | Some t \<Rightarrow> IsZero t)"

text \<open>
  A Go \<^verbatim>\<open>map[string]string\<close> held in a status or spec block: \<open>None\<close> is the nil map, which
  \<^verbatim>\<open>reflect.DeepEqual\<close> tells apart from an empty one. With this, HOL equality of two
  status records is what \<^verbatim>\<open>reflect.DeepEqual\<close> computes on them.
\<close>

type_synonym StringMap = "(string \<rightharpoonup> string) option"

text \<open>\<^verbatim>\<open>type BackupState string\<close> and its four constants (backup.go, lines 5--12).\<close>

type_synonym BackupState = string

definition BackupStateInProgress :: BackupState where
  "BackupStateInProgress = ''InProgress''"

definition BackupStateCompleted :: BackupState where
  "BackupStateCompleted = ''Completed''"

definition BackupStateError :: BackupState where
  "BackupStateError = ''Error''"

definition BackupStateUnknown :: BackupState where
  "BackupStateUnknown = ''Unknown''"

record SnapshotBackupSpec =
  spec_SyncRequestedAt :: Time
  spec_SnapshotName :: string
  spec_Labels :: StringMap

record SnapshotBackupStatus =
  OwnerID :: string
  State :: BackupState
  URL :: string
  SnapshotName :: string
  SnapshotCreatedAt :: string
  BackupCreatedAt :: string
  Size :: string
  Labels :: StringMap
  Messages :: StringMap
  VolumeName :: string
  VolumeSize :: string
  VolumeCreated :: string
  VolumeBackingImageName :: string
  LastSyncedAt :: Time

text \<open>
  Of the embedded \<^verbatim>\<open>ObjectMeta\<close> the controller reads the name, the labels (looked up only,
  so a plain map) and the deletion timestamp (a pointer).
\<close>

record Backup =
  Name :: string
  meta_Labels :: "string \<rightharpoonup> string"
  DeletionTimestamp :: "Time option"
  Spec :: SnapshotBackupSpec
  Status :: SnapshotBackupStatus

text \<open>
  The remaining types are declared outside the two source files. Each record holds the
  fields the controller reads or writes, under the names the controller uses.
\<close>

record BackupVolume =
  bv_DeletionTimestamp :: "Time option"
  bv_SyncRequestedAt :: Time
  bv_LastBackupName :: string
  bv_BackingImageChecksum :: string

record BackupTarget =
  bt_BackupTargetURL :: string
  bt_SyncRequestedAt :: Time

record BackupTargetClient =
  btc_URL :: string
  btc_Credential :: StringMap

record BackupInfo =
  bi_URL :: string
  bi_SnapshotName :: string
  bi_SnapshotCreated :: string
  bi_Created :: string
  bi_Size :: string
  bi_Labels :: StringMap
  bi_Messages :: StringMap
  bi_VolumeName :: string
  bi_VolumeSize :: string
  bi_VolumeCreated :: string
  bi_VolumeBackingImageName :: string

text \<open>An entry of an engine's backup-status collection (\<^verbatim>\<open>longhorn.BackupStatus\<close>).\<close>

record BackupStatus =
  bks_SnapshotName :: string
  bks_Error :: string
  bks_Progress :: int

record Engine =
  eng_CurrentImage :: string
  eng_BackupStatus :: "BackupStatus list"

record Volume =
  vol_Name :: string
  vol_BackingImage :: string

record BackingImage =
  bimg_Checksum :: string

record EngineClient =
  ec_Name :: string

subsection \<open>Errors\<close>

text \<open>
  An error carries the API status reason that \<^verbatim>\<open>apierrors.IsNotFound\<close> and
  \<^verbatim>\<open>apierrors.IsConflict\<close> test, and its message.
\<close>

datatype StatusReason = ReasonNotFound | ReasonConflict | ReasonOther

datatype error = Err StatusReason string

fun IsNotFound :: "error \<Rightarrow> bool" where
  "IsNotFound (Err r m) = (r = ReasonNotFound)"

fun IsConflict :: "error \<Rightarrow> bool" where
  "IsConflict (Err r m) = (r = ReasonConflict)"

subsection \<open>Calls that leave the controller\<close>

text \<open>
  Every write to the resource store, every call to the remote backup target or to the
  engine, every event, enqueue, sleep and task launch is recorded, in order, in a list of
  calls. Reads of the resource store are answered by the environment below and leave no
  record. \<^verbatim>\<open>UpdateBackupStatus\<close> is called from three places, and the record names the place.
  The record of \<^verbatim>\<open>SnapshotBackup\<close> keeps its five string arguments: the backup name, the
  snapshot name, the URL, and the name and checksum of the backing image.
\<close>

datatype site = ClaimOwner | DeferredStatus | MonitorExit

datatype EventType = EventTypeNormal | EventTypeWarning

record MonitorTask =
  mt_backup :: Backup
  mt_volume :: Volume
  mt_volumeName :: string
  mt_url :: string
  mt_biName :: string
  mt_biChecksum :: string
  mt_credential :: StringMap

datatype call =
    CallUpdateBackupStatus site Backup
  | CallDeleteBackup string
  | CallInspectBackupConfig string
  | CallUpdateBackupVolume BackupVolume
  | CallUpdateBackupTarget BackupTarget
  | CallRemoveFinalizerForBackup Backup
  | CallEnqueueBackup Backup
  | CallEventf EventType BackupState
  | CallGo MonitorTask
  | CallSnapshotBackup string string string string string
  | CallSleep

subsection \<open>The environment\<close>

text \<open>
  The data store, the backup target client, the engine client, the clock and the helpers of
  other packages are not part of the two source files. The controller is modelled over
  their answers: one field per operation, named as in the source, giving the result of the
  call for each argument. \<^verbatim>\<open>GetSettingValueExisted\<close> is the answer for the default engine
  image setting, \<^verbatim>\<open>GetBackupTargetRO\<close> and \<^verbatim>\<open>GetBackupTarget\<close> the answers for the default
  backup target. \<^verbatim>\<open>UpdateBackupStatus\<close> may answer differently at each of its call sites.
\<close>

record Env =
  controllerID :: string
  LonghornLabelBackupVolume :: string
  Now :: Time
  GetBackup :: "string \<Rightarrow> error + Backup"
  GetSettingValueExisted :: "error + string"
  isControllerResponsibleFor :: "string \<Rightarrow> string \<Rightarrow> string \<Rightarrow> string \<Rightarrow> bool"
  ListReadyNodesWithReadyEngineImage :: "string \<Rightarrow> error + string list"
  CheckEngineImageReadiness :: "string \<Rightarrow> string \<Rightarrow> error + bool"
  UpdateBackupStatus :: "site \<Rightarrow> Backup \<Rightarrow> error + Backup"
  GetBackupTargetRO :: "error + BackupTarget"
  ErrorIsNotFound :: "error \<Rightarrow> bool"
  GetBackupVolume :: "string \<Rightarrow> error + BackupVolume"
  getBackupTargetClient :: "BackupTarget \<Rightarrow> error + BackupTargetClient"
  EncodeBackupURL :: "string \<Rightarrow> string \<Rightarrow> string \<Rightarrow> string"
  DeleteBackup :: "string \<Rightarrow> error option"
  UpdateBackupVolume :: "BackupVolume \<Rightarrow> error option"
  RemoveFinalizerForBackup :: "Backup \<Rightarrow> error option"
  GetVolumeCurrentEngine :: "string \<Rightarrow> error + Engine"
  GetClientForEngine :: "Engine \<Rightarrow> string \<Rightarrow> error + EngineClient"
  GetVolume :: "string \<Rightarrow> error + Volume"
  GetBackingImage :: "string \<Rightarrow> error + BackingImage"
  GetBackupVolumeRO :: "string \<Rightarrow> error + BackupVolume"
  InspectBackupConfig :: "string \<Rightarrow> error + BackupInfo option"
  SnapshotBackup :: "string \<Rightarrow> string \<Rightarrow> string \<Rightarrow> string \<Rightarrow> string \<Rightarrow> error option"
  GetBackupTarget :: "error + BackupTarget"
  UpdateBackupTarget :: "BackupTarget \<Rightarrow> error option"

section \<open>The ownership resolver\<close>

text \<open>
  \<^verbatim>\<open>isResponsibleFor\<close> (lines 387--418). The deferred wrap of line 390 assigns a local
  variable that is not a result of the function, so the errors are returned as they came.
\<close>

definition isResponsibleFor :: "Env \<Rightarrow> Backup \<Rightarrow> string \<Rightarrow> bool \<times> error option" where
  "isResponsibleFor env b defaultEngineImage =
     (let isResponsible =
            isControllerResponsibleFor env (controllerID env) (Name b) [] (OwnerID (Status b))
      in case ListReadyNodesWithReadyEngineImage env defaultEngineImage of
           Inl err \<Rightarrow> (False, Some err)
         | Inr readyNodesWithReadyEI \<Rightarrow>
             if length readyNodesWithReadyEI = 0 then (False, None)
             else (case CheckEngineImageReadiness env defaultEngineImage (OwnerID (Status b)) of
                     Inl err \<Rightarrow> (False, Some err)
                   | Inr currentOwnerEngineAvailable \<Rightarrow>
                       (case CheckEngineImageReadiness env defaultEngineImage (controllerID env) of
                          Inl err \<Rightarrow> (False, Some err)
                        | Inr currentNodeEngineAvailable \<Rightarrow>
                            (let isPreferredOwner = (currentNodeEngineAvailable \<and> isResponsible);
                                 continueToBeOwner =
                                   (currentNodeEngineAvailable \<and> controllerID env = OwnerID (Status b));
                                 requiresNewOwner =
                                   (currentNodeEngineAvailable \<and> \<not> currentOwnerEngineAvailable)
                             in (isPreferredOwner \<or> continueToBeOwner \<or> requiresNewOwner, None)))))"

text \<open>\<^verbatim>\<open>getBackupVolumeName\<close> (lines 420--426).\<close>

definition getBackupVolumeName :: "Env \<Rightarrow> Backup \<Rightarrow> error + string" where
  "getBackupVolumeName env backup =
     (case meta_Labels backup (LonghornLabelBackupVolume env) of
        None \<Rightarrow> Inl (Err ReasonOther ''cannot find the backup volume label'')
      | Some backupVolumeName \<Rightarrow> Inr backupVolumeName)"

section \<open>The reconciler\<close>

text \<open>
  \<^verbatim>\<open>reconcile\<close> (lines 212--385) is modelled in the four parts it is written in. Each part
  returns the error of the invocation (\<open>None\<close> is nil) and the calls it issued.

  The first part, lines 213--266, fetches the resource, asks the ownership resolver, claims
  the ownership, and resolves the backup target and the name of the backup volume. It
  either ends the invocation or hands the resource, the target and the volume name on.
\<close>

datatype prelude =
    Return "error option" "call list"
  | Proceed Backup BackupTarget string "call list"

definition reconcile_resolve :: "Env \<Rightarrow> Backup \<Rightarrow> call list \<Rightarrow> prelude" where
  "reconcile_resolve env backup cs =
     (case GetBackupTargetRO env of
        Inl err \<Rightarrow> if \<not> IsNotFound err then Return (Some err) cs else Return None cs
      | Inr backupTarget \<Rightarrow>
          (case getBackupVolumeName env backup of
             Inl err \<Rightarrow> if ErrorIsNotFound env err then Return None cs else Return (Some err) cs
           | Inr backupVolumeName \<Rightarrow> Proceed backup backupTarget backupVolumeName cs))"

definition reconcile_prelude :: "Env \<Rightarrow> string \<Rightarrow> prelude" where
  "reconcile_prelude env backupName =
     (case GetBackup env backupName of
        Inl err \<Rightarrow> if \<not> IsNotFound err then Return (Some err) [] else Return None []
      | Inr backup \<Rightarrow>
          (case GetSettingValueExisted env of
             Inl err \<Rightarrow> Return (Some err) []
           | Inr defaultEngineImage \<Rightarrow>
               (case isResponsibleFor env backup defaultEngineImage of
                  (isResponsible, Some err) \<Rightarrow> Return None []
                | (isResponsible, None) \<Rightarrow>
                    if \<not> isResponsible then Return None []
                    else if OwnerID (Status backup) \<noteq> controllerID env then
                      (let claimed =
                             backup\<lparr>Status := (Status backup)\<lparr>OwnerID := controllerID env\<rparr>\<rparr>
                       in case UpdateBackupStatus env ClaimOwner claimed of
                            Inl err \<Rightarrow>
                              if IsConflict err
                              then Return None [CallUpdateBackupStatus ClaimOwner claimed]
                              else Return (Some err) [CallUpdateBackupStatus ClaimOwner claimed]
                          | Inr stored \<Rightarrow>
                              reconcile_resolve env stored
                                [CallUpdateBackupStatus ClaimOwner claimed])
                    else reconcile_resolve env backup [])))"

text \<open>
  The deletion branch, lines 269--302. A not-found answer of \<^verbatim>\<open>GetBackupVolume\<close> leaves the
  backup volume nil. The answer of \<^verbatim>\<open>UpdateBackupVolume\<close> is logged and nothing else, so the
  model issues the call and does not read the answer.
\<close>

definition reconcile_finalize ::
  "Env \<Rightarrow> Backup \<Rightarrow> BackupVolume option \<Rightarrow> call list \<Rightarrow> error option \<times> call list" where
  "reconcile_finalize env backup backupVolume cs =
     (let cs' =
            (case backupVolume of
               None \<Rightarrow> cs
             | Some bv \<Rightarrow>
                 if bv_LastBackupName bv = Name backup
                 then cs @ [CallUpdateBackupVolume (bv\<lparr>bv_SyncRequestedAt := Now env\<rparr>)]
                 else cs)
      in (RemoveFinalizerForBackup env backup, cs' @ [CallRemoveFinalizerForBackup backup]))"

definition reconcile_deletion ::
  "Env \<Rightarrow> Backup \<Rightarrow> BackupTarget \<Rightarrow> string \<Rightarrow> error option \<times> call list" where
  "reconcile_deletion env backup backupTarget backupVolumeName =
     (case (case GetBackupVolume env backupVolumeName of
              Inl err \<Rightarrow> if \<not> IsNotFound err then Inl err else Inr None
            | Inr bv \<Rightarrow> Inr (Some bv)) of
        Inl err \<Rightarrow> (Some err, [])
      | Inr backupVolume \<Rightarrow>
          if bt_BackupTargetURL backupTarget \<noteq> [] \<and>
             (case backupVolume of None \<Rightarrow> False | Some bv \<Rightarrow> bv_DeletionTimestamp bv = None)
          then (case getBackupTargetClient env backupTarget of
                  Inl err \<Rightarrow> (None, [])
                | Inr backupTargetClient \<Rightarrow>
                    (let backupURL =
                           EncodeBackupURL env (Name backup) backupVolumeName
                             (btc_URL backupTargetClient)
                     in case DeleteBackup env backupURL of
                          Some err \<Rightarrow> (Some err, [CallDeleteBackup backupURL])
                        | None \<Rightarrow>
                            reconcile_finalize env backup backupVolume
                              [CallDeleteBackup backupURL]))
          else reconcile_finalize env backup backupVolume [])"

text \<open>
  \<^verbatim>\<open>backupCreation\<close> up to the launch of the monitor task (lines 428--478 and 569). It
  returns the error, the resource with the state it set, and the calls.
\<close>

definition backupCreation ::
  "Env \<Rightarrow> EngineClient \<Rightarrow> string \<Rightarrow> StringMap \<Rightarrow> Backup \<Rightarrow> error option \<times> Backup \<times> call list" where
  "backupCreation env engineClient url credential backup =
     (let volumeName = ec_Name engineClient
      in case GetVolume env volumeName of
           Inl err \<Rightarrow> (Some err, backup, [])
         | Inr volume \<Rightarrow>
             (let biName = vol_BackingImage volume
              in case (if biName \<noteq> [] then
                         (case GetBackingImage env biName of
                            Inl err \<Rightarrow> Inl err
                          | Inr bi \<Rightarrow>
                              (case GetBackupVolumeRO env volumeName of
                                 Inl err \<Rightarrow>
                                   if \<not> IsNotFound err then Inl err else Inr (bimg_Checksum bi)
                               | Inr bv \<Rightarrow>
                                   if bv_BackingImageChecksum bv \<noteq> [] \<and> bimg_Checksum bi \<noteq> [] \<and>
                                      bv_BackingImageChecksum bv \<noteq> bimg_Checksum bi
                                   then Inl (Err ReasonOther
                                          (''the backing image '' @ biName @ '' checksum '' @
                                           bv_BackingImageChecksum bv @
                                           '' in the backup volume doesn't match the current checksum '' @
                                           bimg_Checksum bi))
                                   else Inr (bimg_Checksum bi)))
                       else Inr []) of
                   Inl err \<Rightarrow> (Some err, backup, [])
                 | Inr biChecksum \<Rightarrow>
                     (let backup' =
                            backup\<lparr>Status := (Status backup)\<lparr>State := BackupStateInProgress\<rparr>\<rparr>
                      in (None, backup',
                          [CallEventf EventTypeNormal (State (Status backup')),
                           CallGo \<lparr>mt_backup = backup', mt_volume = volume,
                                   mt_volumeName = volumeName, mt_url = url,
                                   mt_biName = biName, mt_biChecksum = biChecksum,
                                   mt_credential = credential\<rparr>]))))"

text \<open>
  The creation branch and the sync branch, lines 319--384: the body that runs under the
  deferred step. It returns the error, the resource as the body left it, and the calls.
\<close>

definition reconcile_body ::
  "Env \<Rightarrow> Backup \<Rightarrow> BackupTarget \<Rightarrow> string \<Rightarrow> error option \<times> Backup \<times> call list" where
  "reconcile_body env backup backupTarget backupVolumeName =
     (let syncTime = Now env
      in if spec_SnapshotName (Spec backup) \<noteq> [] \<and> State (Status backup) = [] then
           (case getBackupTargetClient env backupTarget of
              Inl err \<Rightarrow> (None, backup, [])
            | Inr backupTargetClient \<Rightarrow>
                (case GetVolumeCurrentEngine env backupVolumeName of
                   Inl err \<Rightarrow> (Some err, backup, [])
                 | Inr engine \<Rightarrow>
                     (case GetClientForEngine env engine (eng_CurrentImage engine) of
                        Inl err \<Rightarrow> (Some err, backup, [])
                      | Inr engineClient \<Rightarrow>
                          backupCreation env engineClient (btc_URL backupTargetClient)
                            (btc_Credential backupTargetClient) backup)))
         else if \<not> IsZero (LastSyncedAt (Status backup)) \<and>
                 \<not> After (spec_SyncRequestedAt (Spec backup)) (LastSyncedAt (Status backup))
         then (None, backup, [])
         else
           (case getBackupTargetClient env backupTarget of
              Inl err \<Rightarrow> (None, backup, [])
            | Inr backupTargetClient \<Rightarrow>
                (let backupURL =
                       EncodeBackupURL env (Name backup) backupVolumeName
                         (btc_URL backupTargetClient)
                 in case InspectBackupConfig env backupURL of
                      Inl err \<Rightarrow> (None, backup, [CallInspectBackupConfig backupURL])
                    | Inr None \<Rightarrow> (None, backup, [CallInspectBackupConfig backupURL])
                    | Inr (Some backupInfo) \<Rightarrow>
                        (None,
                         backup\<lparr>Status := (Status backup)
                           \<lparr>State := BackupStateCompleted,
                            URL := bi_URL backupInfo,
                            SnapshotName := bi_SnapshotName backupInfo,
                            SnapshotCreatedAt := bi_SnapshotCreated backupInfo,
                            BackupCreatedAt := bi_Created backupInfo,
                            Size := bi_Size backupInfo,
                            Labels := bi_Labels backupInfo,
                            Messages := bi_Messages backupInfo,
                            VolumeName := bi_VolumeName backupInfo,
                            VolumeSize := bi_VolumeSize backupInfo,
                            VolumeCreated := bi_VolumeCreated backupInfo,
                            VolumeBackingImageName := bi_VolumeBackingImageName backupInfo,
                            LastSyncedAt := syncTime\<rparr>\<rparr>,
                         [CallInspectBackupConfig backupURL]))))"

text \<open>
  The deferred step, lines 306--317, run on every return of the body. It reads the error
  the body returned and the resource as the body left it; the error of its own write is a
  local variable and does not change the error of the invocation.
\<close>

definition reconcile_deferred :: "Env \<Rightarrow> Backup \<Rightarrow> error option \<Rightarrow> Backup \<Rightarrow> call list" where
  "reconcile_deferred env existingBackup err backup =
     (if err \<noteq> None then []
      else if Status existingBackup = Status backup then []
      else (case UpdateBackupStatus env DeferredStatus backup of
              Inl e \<Rightarrow>
                if IsConflict e
                then [CallUpdateBackupStatus DeferredStatus backup, CallEnqueueBackup backup]
                else [CallUpdateBackupStatus DeferredStatus backup]
            | Inr stored \<Rightarrow> [CallUpdateBackupStatus DeferredStatus backup]))"

definition reconcile :: "Env \<Rightarrow> string \<Rightarrow> error option \<times> call list" where
  "reconcile env backupName =
     (case reconcile_prelude env backupName of
        Return err cs \<Rightarrow> (err, cs)
      | Proceed backup backupTarget backupVolumeName cs \<Rightarrow>
          if \<not> ptr_IsZero (DeletionTimestamp backup) then
            (case reconcile_deletion env backup backupTarget backupVolumeName of
               (err, cs') \<Rightarrow> (err, cs @ cs'))
          else
            (case reconcile_body env backup backupTarget backupVolumeName of
               (err, backup', cs') \<Rightarrow>
                 (err, cs @ cs' @ reconcile_deferred env backup err backup')))"

section \<open>The progress monitor\<close>

text \<open>
  The task launched at line 478, over the values it captured. The search of lines 513--522
  starts from a pointer to an empty status entry; the inner \<^verbatim>\<open>break\<close> leaves the loop over
  one engine's entries only, so a later engine's match replaces an earlier one. The pointer
  is an option, \<open>None\<close> being nil.
\<close>

definition empty_BackupStatus :: BackupStatus where
  "empty_BackupStatus = \<lparr>bks_SnapshotName = [], bks_Error = [], bks_Progress = 0\<rparr>"

fun scan_engines :: "string \<Rightarrow> Engine list \<Rightarrow> BackupStatus option \<Rightarrow> BackupStatus option" where
  "scan_engines snapshotName [] bks = bks"
| "scan_engines snapshotName (e # engines) bks =
     scan_engines snapshotName engines
       (case List.find (\<lambda>b. bks_SnapshotName b = snapshotName) (eng_BackupStatus e) of
          None \<Rightarrow> bks
        | Some b \<Rightarrow> Some b)"

text \<open>
  The wake-up of the sibling resource after completion, lines 545--565. The answers of the
  two update calls are logged and nothing else.
\<close>

definition monitor_wake :: "Env \<Rightarrow> MonitorTask \<Rightarrow> call list" where
  "monitor_wake env t =
     (let syncTime = Now env
      in case GetBackupVolume env (mt_volumeName t) of
           Inr backupVolume \<Rightarrow>
             [CallUpdateBackupVolume (backupVolume\<lparr>bv_SyncRequestedAt := syncTime\<rparr>)]
         | Inl err \<Rightarrow>
             if IsNotFound err then
               (case GetBackupTarget env of
                  Inl err' \<Rightarrow> []
                | Inr backupTarget \<Rightarrow>
                    [CallUpdateBackupTarget (backupTarget\<lparr>bt_SyncRequestedAt := syncTime\<rparr>)])
             else [])"

text \<open>
  The polling loop, lines 505--566. It has no bound, so the model runs it over the answers
  that \<^verbatim>\<open>ListVolumeEngines\<close> gives to the successive polls: one element of the list per
  iteration. The result is the state the loop leaves and the calls it issued, or \<open>None\<close> when
  the loop is still polling after the last answer of the list.
\<close>

fun monitor_poll ::
  "Env \<Rightarrow> MonitorTask \<Rightarrow> (error + Engine list) list \<Rightarrow> (BackupState \<times> call list) option" where
  "monitor_poll env t [] = None"
| "monitor_poll env t (answer # answers) =
     (case answer of
        Inl err \<Rightarrow> Some (BackupStateUnknown, [CallEventf EventTypeWarning BackupStateUnknown])
      | Inr engines \<Rightarrow>
          (case scan_engines (spec_SnapshotName (Spec (mt_backup t))) engines
                  (Some empty_BackupStatus) of
             None \<Rightarrow> Some (BackupStateUnknown, [CallEventf EventTypeNormal BackupStateUnknown])
           | Some bks \<Rightarrow>
               if bks_Error bks \<noteq> [] then
                 Some (BackupStateError, [CallEventf EventTypeWarning BackupStateError])
               else if bks_Progress bks \<noteq> 100 then
                 (case monitor_poll env t answers of
                    None \<Rightarrow> None
                  | Some (state, cs) \<Rightarrow> Some (state, CallSleep # cs))
               else
                 Some (BackupStateCompleted,
                       CallEventf EventTypeNormal BackupStateCompleted # monitor_wake env t)))"

text \<open>
  The deferred function of the task, lines 480--496, run on every return of the task with
  the state the task computed.
\<close>

definition monitor_exit :: "Env \<Rightarrow> MonitorTask \<Rightarrow> BackupState \<Rightarrow> call list" where
  "monitor_exit env t state =
     (case GetBackup env (Name (mt_backup t)) of
        Inl err \<Rightarrow> []
      | Inr backup \<Rightarrow>
          (let existingBackup = backup;
               backup' = backup\<lparr>Status := (Status backup)\<lparr>State := state\<rparr>\<rparr>
           in if Status existingBackup = Status backup' then []
              else (case UpdateBackupStatus env MonitorExit backup' of
                      Inl err \<Rightarrow>
                        if \<not> IsConflict err
                        then [CallUpdateBackupStatus MonitorExit backup']
                        else [CallUpdateBackupStatus MonitorExit backup']
                    | Inr stored \<Rightarrow> [CallUpdateBackupStatus MonitorExit backup'])))"

text \<open>
  The body of the task, lines 498--566: the start of the transfer and the polling loop. It
  returns the state the task computed and the calls it issued, or \<open>None\<close> while it is still
  polling.
\<close>

definition monitor_run ::
  "Env \<Rightarrow> MonitorTask \<Rightarrow> (error + Engine list) list \<Rightarrow> (BackupState \<times> call list) option" where
  "monitor_run env t answers =
     (let backup = mt_backup t;
          start = CallSnapshotBackup (Name backup) (spec_SnapshotName (Spec backup))
                    (mt_url t) (mt_biName t) (mt_biChecksum t)
      in case SnapshotBackup env (Name backup) (spec_SnapshotName (Spec backup))
                (mt_url t) (mt_biName t) (mt_biChecksum t) of
           Some err \<Rightarrow>
             Some (BackupStateError, [start, CallEventf EventTypeWarning BackupStateError])
         | None \<Rightarrow>
             (case monitor_poll env t answers of
                None \<Rightarrow> None
              | Some (state, cs) \<Rightarrow> Some (state, start # cs)))"

text \<open>
  The whole task, lines 478--567: when the body returns, the deferred function runs with
  the state the body computed. The result is the calls of the task, or \<open>None\<close> while it is
  still polling.
\<close>

definition monitor ::
  "Env \<Rightarrow> MonitorTask \<Rightarrow> (error + Engine list) list \<Rightarrow> call list option" where
  "monitor env t answers =
     (case monitor_run env t answers of
        None \<Rightarrow> None
      | Some (state, cs) \<Rightarrow> Some (cs @ monitor_exit env t state))"

section \<open>The three ownership signals, as the specification words them\<close>

text \<open>
  A node offers the capability when the readiness check for it answers true. The
  specification calls a replica responsible when it is preferred (canonical owner by the
  tie-break rule, and offering the capability), or continues (offering the capability, and
  the recorded owner), or takes over (offering the capability while the recorded owner's
  node does not).
\<close>

definition offers :: "Env \<Rightarrow> string \<Rightarrow> string \<Rightarrow> bool" where
  "offers env img node = (CheckEngineImageReadiness env img node = Inr True)"

definition spec_responsible :: "Env \<Rightarrow> Backup \<Rightarrow> string \<Rightarrow> bool" where
  "spec_responsible env b img =
     ((isControllerResponsibleFor env (controllerID env) (Name b) [] (OwnerID (Status b)) \<and>
         offers env img (controllerID env)) \<or>
      (offers env img (controllerID env) \<and> OwnerID (Status b) = controllerID env) \<or>
      (offers env img (controllerID env) \<and> \<not> offers env img (OwnerID (Status b))))"

text \<open>Recognisers of calls, used to count them.\<close>

fun is_status_write :: "site \<Rightarrow> call \<Rightarrow> bool" where
  "is_status_write s (CallUpdateBackupStatus s' w) = (s' = s)"
| "is_status_write s c = False"

fun is_remote_delete :: "call \<Rightarrow> bool" where
  "is_remote_delete (CallDeleteBackup u) = True"
| "is_remote_delete c = False"

fun is_finalizer_removal :: "call \<Rightarrow> bool" where
  "is_finalizer_removal (CallRemoveFinalizerForBackup w) = True"
| "is_finalizer_removal c = False"

text \<open>Status writes of any site, and enqueues.\<close>

fun is_store_write_or_enqueue :: "call \<Rightarrow> bool" where
  "is_store_write_or_enqueue (CallUpdateBackupStatus s w) = True"
| "is_store_write_or_enqueue (CallEnqueueBackup w) = True"
| "is_store_write_or_enqueue c = False"

text \<open>
  An answer to a poll in which no engine holds a status entry for the snapshot.
\<close>

fun entry_absent :: "string \<Rightarrow> (error + Engine list) \<Rightarrow> bool" where
  "entry_absent snap (Inl err) = False"
| "entry_absent snap (Inr engines) =
     list_all (\<lambda>e. list_all (\<lambda>b. bks_SnapshotName b \<noteq> snap) (eng_BackupStatus e)) engines"

text \<open>
  The lookup of the backup volume in the deletion branch lets the branch go on: it found
  the volume, or answered not-found.
\<close>

definition volume_lookup_ok :: "Env \<Rightarrow> string \<Rightarrow> bool" where
  "volume_lookup_ok env v = (case GetBackupVolume env v of Inl e \<Rightarrow> IsNotFound e | Inr bv \<Rightarrow> True)"

text \<open>The calls issued by the first part of \<^verbatim>\<open>reconcile\<close>, however it ended.\<close>

fun calls_of :: "prelude \<Rightarrow> call list" where
  "calls_of (Return err cs) = cs"
| "calls_of (Proceed b bt v cs) = cs"

section \<open>Concrete resources and environments\<close>

text \<open>
  A small cluster on which the definitions are run: the replica \<open>node1\<close>, one backup \<open>b1\<close>
  of the volume \<open>vol1\<close>, one backup target, and a store and clients that answer every call
  with success.
\<close>

definition backup0 :: Backup where
  "backup0 =
     \<lparr>Name = ''b1'', meta_Labels = [''backup-volume'' \<mapsto> ''vol1''], DeletionTimestamp = None,
      Spec = \<lparr>spec_SyncRequestedAt = 0, spec_SnapshotName = ''snap1'', spec_Labels = None\<rparr>,
      Status = \<lparr>OwnerID = ''node1'', State = [], URL = [], SnapshotName = [],
                SnapshotCreatedAt = [], BackupCreatedAt = [], Size = [], Labels = None,
                Messages = None, VolumeName = [], VolumeSize = [], VolumeCreated = [],
                VolumeBackingImageName = [], LastSyncedAt = 0\<rparr>\<rparr>"

definition backup_deleting :: Backup where
  "backup_deleting = backup0\<lparr>DeletionTimestamp := Some 50\<rparr>"

definition backup_foreign :: Backup where
  "backup_foreign = backup0\<lparr>Status := (Status backup0)\<lparr>OwnerID := ''node2''\<rparr>\<rparr>"

definition backup_imported :: Backup where
  "backup_imported = backup0\<lparr>Spec := (Spec backup0)\<lparr>spec_SnapshotName := []\<rparr>\<rparr>"

definition backup_synced :: Backup where
  "backup_synced =
     backup0\<lparr>Spec := (Spec backup0)\<lparr>spec_SnapshotName := [], spec_SyncRequestedAt := 10\<rparr>,
             Status := (Status backup0)\<lparr>State := ''Completed'', URL := ''s3://bucket?b1'',
                                        LastSyncedAt := 10\<rparr>\<rparr>"

definition backup_running :: Backup where
  "backup_running = backup0\<lparr>Status := (Status backup0)\<lparr>State := ''InProgress''\<rparr>\<rparr>"

definition backup_found :: Backup where
  "backup_found =
     backup_imported\<lparr>Status :=
       \<lparr>OwnerID = ''node1'', State = ''Completed'', URL = ''s3://bucket?b1'',
        SnapshotName = ''snap1'', SnapshotCreatedAt = ''t1'', BackupCreatedAt = ''t2'',
        Size = ''42'', Labels = None, Messages = None, VolumeName = ''vol1'',
        VolumeSize = ''100'', VolumeCreated = ''t0'', VolumeBackingImageName = [],
        LastSyncedAt = 1000\<rparr>\<rparr>"

definition volume0 :: BackupVolume where
  "volume0 = \<lparr>bv_DeletionTimestamp = None, bv_SyncRequestedAt = 0,
              bv_LastBackupName = ''b1'', bv_BackingImageChecksum = []\<rparr>"

definition target0 :: BackupTarget where
  "target0 = \<lparr>bt_BackupTargetURL = ''s3://bucket'', bt_SyncRequestedAt = 0\<rparr>"

definition target_unset :: BackupTarget where
  "target_unset = \<lparr>bt_BackupTargetURL = [], bt_SyncRequestedAt = 0\<rparr>"

definition info0 :: BackupInfo where
  "info0 = \<lparr>bi_URL = ''s3://bucket?b1'', bi_SnapshotName = ''snap1'',
            bi_SnapshotCreated = ''t1'', bi_Created = ''t2'', bi_Size = ''42'',
            bi_Labels = None, bi_Messages = None, bi_VolumeName = ''vol1'',
            bi_VolumeSize = ''100'', bi_VolumeCreated = ''t0'',
            bi_VolumeBackingImageName = []\<rparr>"

definition conflict :: error where
  "conflict = Err ReasonConflict ''the object has been modified''"

definition failure :: error where
  "failure = Err ReasonOther ''connection refused''"

definition missing :: error where
  "missing = Err ReasonNotFound ''not found''"

definition world :: "Backup \<Rightarrow> Env" where
  "world b =
     \<lparr>controllerID = ''node1'',
      LonghornLabelBackupVolume = ''backup-volume'',
      Now = 1000,
      GetBackup = (\<lambda>n. if n = Name b then Inr b else Inl missing),
      GetSettingValueExisted = Inr ''engine:v1'',
      isControllerResponsibleFor = (\<lambda>c n p owner. True),
      ListReadyNodesWithReadyEngineImage = (\<lambda>i. Inr [''node1'']),
      CheckEngineImageReadiness = (\<lambda>i n. Inr (n = ''node1'')),
      UpdateBackupStatus = (\<lambda>s w. Inr w),
      GetBackupTargetRO = Inr target0,
      ErrorIsNotFound = (\<lambda>e. case e of Err r m \<Rightarrow> m = ''cannot find the backup volume label''),
      GetBackupVolume = (\<lambda>v. Inr volume0),
      getBackupTargetClient = (\<lambda>bt. Inr \<lparr>btc_URL = bt_BackupTargetURL bt, btc_Credential = None\<rparr>),
      EncodeBackupURL = (\<lambda>n v u. u @ ''?backup='' @ n @ ''&volume='' @ v),
      DeleteBackup = (\<lambda>u. None),
      UpdateBackupVolume = (\<lambda>v. None),
      RemoveFinalizerForBackup = (\<lambda>w. None),
      GetVolumeCurrentEngine = (\<lambda>v. Inr \<lparr>eng_CurrentImage = ''engine:v1'', eng_BackupStatus = []\<rparr>),
      GetClientForEngine = (\<lambda>e i. Inr \<lparr>ec_Name = ''vol1''\<rparr>),
      GetVolume = (\<lambda>v. Inr \<lparr>vol_Name = v, vol_BackingImage = []\<rparr>),
      GetBackingImage = (\<lambda>n. Inl missing),
      GetBackupVolumeRO = (\<lambda>v. Inr volume0),
      InspectBackupConfig = (\<lambda>u. Inr None),
      SnapshotBackup = (\<lambda>n s u bi c. None),
      GetBackupTarget = Inr target0,
      UpdateBackupTarget = (\<lambda>bt. None)\<rparr>"

definition world_no_nodes :: Env where
  "world_no_nodes = (world backup0)\<lparr>ListReadyNodesWithReadyEngineImage := (\<lambda>i. Inr [])\<rparr>"

definition world_list_fails :: Env where
  "world_list_fails = (world backup0)\<lparr>ListReadyNodesWithReadyEngineImage := (\<lambda>i. Inl failure)\<rparr>"

definition world_check_fails :: Env where
  "world_check_fails = (world backup0)\<lparr>CheckEngineImageReadiness := (\<lambda>i n. Inl failure)\<rparr>"

definition world_claim_conflict :: Env where
  "world_claim_conflict = (world backup_foreign)\<lparr>UpdateBackupStatus := (\<lambda>s w. Inl conflict)\<rparr>"

definition world_claim_fails :: Env where
  "world_claim_fails = (world backup_foreign)\<lparr>UpdateBackupStatus := (\<lambda>s w. Inl failure)\<rparr>"

definition world_other_owner :: Env where
  "world_other_owner =
     (world backup_foreign)\<lparr>isControllerResponsibleFor := (\<lambda>c n p owner. False),
                            CheckEngineImageReadiness := (\<lambda>i n. Inr True)\<rparr>"

definition world_delete_fails :: Env where
  "world_delete_fails = (world backup_deleting)\<lparr>DeleteBackup := (\<lambda>u. Some failure)\<rparr>"

definition world_volume_fails :: Env where
  "world_volume_fails = (world backup_deleting)\<lparr>GetBackupVolume := (\<lambda>v. Inl failure)\<rparr>"

definition world_target_unset :: Env where
  "world_target_unset = (world backup_deleting)\<lparr>GetBackupTargetRO := Inr target_unset\<rparr>"

definition world_found :: Env where
  "world_found =
     (world backup_imported)\<lparr>InspectBackupConfig := (\<lambda>u. Inr (Some info0)),
                             UpdateBackupStatus := (\<lambda>s w. Inl conflict)\<rparr>"

definition world_transfer_fails :: Env where
  "world_transfer_fails =
     (world backup_running)\<lparr>SnapshotBackup := (\<lambda>n s u bi c. Some failure),
                            UpdateBackupStatus := (\<lambda>s w. Inl conflict)\<rparr>"

definition backup_failed :: Backup where
  "backup_failed = backup0\<lparr>Status := (Status backup0)\<lparr>State := ''Error''\<rparr>\<rparr>"

definition world_already_failed :: Env where
  "world_already_failed =
     (world backup_failed)\<lparr>SnapshotBackup := (\<lambda>n s u bi c. Some failure)\<rparr>"

definition world_monitor_conflict :: Env where
  "world_monitor_conflict = (world backup_running)\<lparr>UpdateBackupStatus := (\<lambda>s w. Inl conflict)\<rparr>"

definition world_backup_gone :: Env where
  "world_backup_gone = (world backup_running)\<lparr>GetBackup := (\<lambda>n. Inl missing)\<rparr>"

definition task0 :: MonitorTask where
  "task0 = \<lparr>mt_backup = backup_running,
            mt_volume = \<lparr>vol_Name = ''vol1'', vol_BackingImage = []\<rparr>,
            mt_volumeName = ''vol1'', mt_url = ''s3://bucket'', mt_biName = [],
            mt_biChecksum = [], mt_credential = None\<rparr>"

definition engine_idle :: Engine where
  "engine_idle = \<lparr>eng_CurrentImage = ''engine:v1'', eng_BackupStatus = []\<rparr>"

definition engine_done :: Engine where
  "engine_done =
     \<lparr>eng_CurrentImage = ''engine:v1'',
      eng_BackupStatus = [\<lparr>bks_SnapshotName = ''snap1'', bks_Error = [], bks_Progress = 100\<rparr>]\<rparr>"

definition engine_failed :: Engine where
  "engine_failed =
     \<lparr>eng_CurrentImage = ''engine:v1'',
      eng_BackupStatus = [\<lparr>bks_SnapshotName = ''snap1'', bks_Error = ''disk full'', bks_Progress = 40\<rparr>]\<rparr>"

definition start0 :: call where
  "start0 = CallSnapshotBackup ''b1'' ''snap1'' ''s3://bucket'' [] []"

section \<open>Properties\<close>

subsection \<open>Where status writes can come from\<close>

lemma status_write_cases: "is_status_write s c \<Longrightarrow> \<exists>w. c = CallUpdateBackupStatus s w"
  by (cases c) auto

lemma deletion_no_status_write:
  "CallUpdateBackupStatus s w \<notin> set (snd (reconcile_deletion env b bt v))"
  by (auto simp: reconcile_deletion_def reconcile_finalize_def Let_def
           split: sum.splits option.splits if_splits)

lemma backupCreation_no_status_write:
  "CallUpdateBackupStatus s w \<notin> set (snd (snd (backupCreation env ec u c b)))"
  by (auto simp: backupCreation_def Let_def split: sum.splits option.splits if_splits)

lemma body_no_status_write:
  "CallUpdateBackupStatus s w \<notin> set (snd (snd (reconcile_body env b bt v)))"
  using backupCreation_no_status_write
  by (auto simp: reconcile_body_def Let_def split: sum.splits option.splits if_splits)

lemma deferred_site:
  "CallUpdateBackupStatus s w \<in> set (reconcile_deferred env ex err b) \<Longrightarrow> s = DeferredStatus"
  by (auto simp: reconcile_deferred_def split: sum.splits if_splits)

lemma resolve_proceed:
  "reconcile_resolve env b cs = Proceed b' bt v cs' \<Longrightarrow> cs' = cs \<and> b' = b"
  by (auto simp: reconcile_resolve_def split: sum.splits if_splits)

lemma resolve_return:
  "reconcile_resolve env b cs = Return err cs' \<Longrightarrow> cs' = cs"
  by (auto simp: reconcile_resolve_def split: sum.splits if_splits)

subsection \<open>The ownership resolver\<close>

text \<open>
  C5, as amended. When the list of ready nodes is obtained and is not empty, and both
  readiness checks answer, \<^verbatim>\<open>isResponsibleFor\<close> returns the disjunction of the three
  signals (preferred, continuity, takeover) and a nil error.
\<close>

theorem isResponsibleFor_signals:
  assumes "ListReadyNodesWithReadyEngineImage env img = Inr nodes" and "nodes \<noteq> []"
    and "CheckEngineImageReadiness env img (OwnerID (Status b)) = Inr ownerAvailable"
    and "CheckEngineImageReadiness env img (controllerID env) = Inr nodeAvailable"
  shows "isResponsibleFor env b img = (spec_responsible env b img, None)"
  using assms by (auto simp: isResponsibleFor_def spec_responsible_def offers_def Let_def)

theorem isResponsibleFor_signals_witness:
  "ListReadyNodesWithReadyEngineImage (world backup_foreign) ''engine:v1'' = Inr [''node1''] \<and>
   [''node1''] \<noteq> ([] :: string list) \<and>
   CheckEngineImageReadiness (world backup_foreign) ''engine:v1''
     (OwnerID (Status backup_foreign)) = Inr False \<and>
   CheckEngineImageReadiness (world backup_foreign) ''engine:v1''
     (controllerID (world backup_foreign)) = Inr True \<and>
   spec_responsible (world backup_foreign) backup_foreign ''engine:v1'' \<and>
   isResponsibleFor (world backup_foreign) backup_foreign ''engine:v1'' = (True, None)"
proof -
  have l: "ListReadyNodesWithReadyEngineImage (world backup_foreign) ''engine:v1'' = Inr [''node1'']"
    by (simp add: world_def)
  have n: "[''node1''] \<noteq> ([] :: string list)" by simp
  have o: "CheckEngineImageReadiness (world backup_foreign) ''engine:v1''
     (OwnerID (Status backup_foreign)) = Inr False"
    by (simp add: world_def backup_foreign_def backup0_def)
  have c: "CheckEngineImageReadiness (world backup_foreign) ''engine:v1''
     (controllerID (world backup_foreign)) = Inr True"
    by (simp add: world_def)
  have s: "spec_responsible (world backup_foreign) backup_foreign ''engine:v1''"
    by (simp add: spec_responsible_def offers_def world_def backup_foreign_def backup0_def)
  from isResponsibleFor_signals [OF l n o c] s
  have r: "isResponsibleFor (world backup_foreign) backup_foreign ''engine:v1'' = (True, None)"
    by simp
  show ?thesis by (intro conjI l n o c s r)
qed

text \<open>
  C5, as stated, fails. With no ready node the function returns false and nil although this
  replica is the recorded owner and its readiness check would answer true, so that the
  disjunction of the three signals holds; and when the list of ready nodes cannot be
  obtained, or a readiness check fails, the function returns the error, not nil.
\<close>

theorem isResponsibleFor_counterexample:
  "isResponsibleFor world_no_nodes backup0 ''engine:v1'' = (False, None) \<and>
   spec_responsible world_no_nodes backup0 ''engine:v1'' \<and>
   isResponsibleFor world_list_fails backup0 ''engine:v1'' = (False, Some failure) \<and>
   isResponsibleFor world_check_fails backup0 ''engine:v1'' = (False, Some failure)"
  by (simp add: isResponsibleFor_def spec_responsible_def offers_def world_no_nodes_def
      world_list_fails_def world_check_fails_def world_def backup0_def)

text \<open>
  C6. When the list of ready nodes carrying the default engine image is empty,
  \<^verbatim>\<open>isResponsibleFor\<close> returns false and nil, and \<^verbatim>\<open>reconcile\<close> returns nil having issued no
  call at all: no ownership claim, no status update, no finalizer change.
\<close>

theorem no_ready_node_no_writes:
  assumes "GetBackup env backupName = Inr b"
    and "GetSettingValueExisted env = Inr img"
    and "ListReadyNodesWithReadyEngineImage env img = Inr []"
  shows "isResponsibleFor env b img = (False, None) \<and> reconcile env backupName = (None, [])"
  using assms by (simp add: isResponsibleFor_def reconcile_def reconcile_prelude_def)

theorem no_ready_node_no_writes_witness:
  "GetBackup world_no_nodes ''b1'' = Inr backup0 \<and>
   GetSettingValueExisted world_no_nodes = Inr ''engine:v1'' \<and>
   ListReadyNodesWithReadyEngineImage world_no_nodes ''engine:v1'' = Inr [] \<and>
   isResponsibleFor world_no_nodes backup0 ''engine:v1'' = (False, None) \<and>
   reconcile world_no_nodes ''b1'' = (None, [])"
proof -
  have g: "GetBackup world_no_nodes ''b1'' = Inr backup0"
    by (simp add: world_no_nodes_def world_def backup0_def)
  have v: "GetSettingValueExisted world_no_nodes = Inr ''engine:v1''"
    by (simp add: world_no_nodes_def world_def)
  have l: "ListReadyNodesWithReadyEngineImage world_no_nodes ''engine:v1'' = Inr []"
    by (simp add: world_no_nodes_def world_def)
  note t = no_ready_node_no_writes [OF g v l]
  show ?thesis by (intro conjI g v l conjunct1 [OF t] conjunct2 [OF t])
qed

text \<open>
  C10. When \<^verbatim>\<open>isResponsibleFor\<close> returns an error, \<^verbatim>\<open>reconcile\<close> returns nil and has issued no
  call: the error does not reach the dispatch loop.
\<close>

theorem responsibility_error_swallowed:
  assumes "GetBackup env backupName = Inr b"
    and "GetSettingValueExisted env = Inr img"
    and "snd (isResponsibleFor env b img) = Some e"
  shows "reconcile env backupName = (None, [])"
  using assms by (cases "isResponsibleFor env b img") (simp add: reconcile_def reconcile_prelude_def)

theorem responsibility_error_swallowed_witness:
  "GetBackup world_list_fails ''b1'' = Inr backup0 \<and>
   GetSettingValueExisted world_list_fails = Inr ''engine:v1'' \<and>
   snd (isResponsibleFor world_list_fails backup0 ''engine:v1'') = Some failure \<and>
   reconcile world_list_fails ''b1'' = (None, [])"
proof -
  have g: "GetBackup world_list_fails ''b1'' = Inr backup0"
    by (simp add: world_list_fails_def world_def backup0_def)
  have v: "GetSettingValueExisted world_list_fails = Inr ''engine:v1''"
    by (simp add: world_list_fails_def world_def)
  have e: "snd (isResponsibleFor world_list_fails backup0 ''engine:v1'') = Some failure"
    by (simp add: isResponsibleFor_def world_list_fails_def world_def)
  show ?thesis by (intro conjI g v e responsibility_error_swallowed [OF g v e])
qed

subsection \<open>The ownership claim\<close>

lemma prelude_calls:
  "reconcile_prelude env n = Proceed b bt v cs \<Longrightarrow>
   cs = [] \<or> (\<exists>w. cs = [CallUpdateBackupStatus ClaimOwner w])"
  by (auto simp: reconcile_prelude_def Let_def split: sum.splits if_splits option.splits prod.splits dest!: resolve_proceed)

lemma prelude_return_calls:
  "reconcile_prelude env n = Return err cs \<Longrightarrow>
   cs = [] \<or> (\<exists>w. cs = [CallUpdateBackupStatus ClaimOwner w])"
  by (auto simp: reconcile_prelude_def Let_def split: sum.splits if_splits option.splits prod.splits dest!: resolve_return)

lemma claim_write_in_prelude:
  assumes "CallUpdateBackupStatus ClaimOwner w \<in> set (snd (reconcile env n))"
  shows "CallUpdateBackupStatus ClaimOwner w \<in> set (calls_of (reconcile_prelude env n))"
proof (cases "reconcile_prelude env n")
  case (Return err cs)
  with assms show ?thesis by (simp add: reconcile_def)
next
  case (Proceed b bt v cs)
  show ?thesis
  proof (cases "ptr_IsZero (DeletionTimestamp b)")
    case False
    with Proceed assms deletion_no_status_write [of ClaimOwner w env b bt v]
    show ?thesis by (auto simp: reconcile_def split: prod.splits)
  next
    case True
    obtain err b' cs' where body: "reconcile_body env b bt v = (err, b', cs')"
      by (cases "reconcile_body env b bt v") auto
    from body body_no_status_write [of ClaimOwner w env b bt v]
    have "CallUpdateBackupStatus ClaimOwner w \<notin> set cs'" by simp
    moreover have "CallUpdateBackupStatus ClaimOwner w \<notin> set (reconcile_deferred env b err b')"
      using deferred_site [of ClaimOwner w env b err b'] by auto
    ultimately show ?thesis using Proceed True body assms by (simp add: reconcile_def)
  qed
qed

lemma resolve_calls_of: "calls_of (reconcile_resolve env b cs) = cs"
  by (simp add: reconcile_resolve_def split: sum.splits)

lemma prelude_claim_reached:
  assumes "GetBackup env n = Inr b"
    and "CallUpdateBackupStatus ClaimOwner w \<in> set (calls_of (reconcile_prelude env n))"
  shows "\<exists>img. GetSettingValueExisted env = Inr img \<and>
               isResponsibleFor env b img = (True, None) \<and>
               OwnerID (Status b) \<noteq> controllerID env"
proof (cases "GetSettingValueExisted env")
  case (Inl e)
  with assms show ?thesis by (simp add: reconcile_prelude_def)
next
  case (Inr img)
  obtain r e where resp: "isResponsibleFor env b img = (r, e)"
    by (cases "isResponsibleFor env b img") auto
  show ?thesis
  proof (cases e)
    case (Some err)
    with assms Inr resp show ?thesis by (simp add: reconcile_prelude_def)
  next
    case None
    show ?thesis
    proof (cases "r \<and> OwnerID (Status b) \<noteq> controllerID env")
      case True
      with Inr resp None show ?thesis by simp
    next
      case False
      have "calls_of (reconcile_prelude env n) = []"
      proof (cases r)
        case True
        with False have "OwnerID (Status b) = controllerID env" by simp
        with assms(1) Inr resp None True show ?thesis
          by (simp add: reconcile_prelude_def resolve_calls_of)
      next
        case False
        with assms(1) Inr resp None show ?thesis by (simp add: reconcile_prelude_def)
      qed
      with assms(2) show ?thesis by simp
    qed
  qed
qed

text \<open>
  C7, as stated, fails. The backup \<open>b1\<close> is owned by \<open>node2\<close>, whose engine image is ready,
  and this replica is not the preferred owner: the recorded owner differs from this
  replica's identifier, and \<^verbatim>\<open>reconcile\<close> issues no claim write, because it returns at the
  responsibility check before the claim.
\<close>

theorem ownership_claim_counterexample:
  "GetBackup world_other_owner ''b1'' = Inr backup_foreign \<and>
   OwnerID (Status backup_foreign) \<noteq> controllerID world_other_owner \<and>
   reconcile world_other_owner ''b1'' = (None, [])"
  by (simp add: reconcile_def reconcile_prelude_def isResponsibleFor_def world_other_owner_def
        world_def backup_foreign_def backup0_def)

text \<open>
  C7, as amended. For the backup that \<^verbatim>\<open>reconcile\<close> fetched, the claim write is issued if and
  only if the replica was found responsible (the default engine image was read and
  \<^verbatim>\<open>isResponsibleFor\<close> returned true with a nil error) and the recorded owner differs from
  this replica's identifier, so an owned resource is never claimed again. When the claim
  write answers with a conflict the invocation returns nil, when it answers with any other
  error the invocation returns that error, and in both cases the claim write is its only
  call.
\<close>

theorem ownership_claim_write:
  assumes "GetBackup env backupName = Inr b"
  shows "((\<exists>w. CallUpdateBackupStatus ClaimOwner w \<in> set (snd (reconcile env backupName))) \<longleftrightarrow>
            (\<exists>img. GetSettingValueExisted env = Inr img \<and>
                   isResponsibleFor env b img = (True, None)) \<and>
            OwnerID (Status b) \<noteq> controllerID env) \<and>
         (\<forall>img e. GetSettingValueExisted env = Inr img \<and>
                  isResponsibleFor env b img = (True, None) \<and>
                  OwnerID (Status b) \<noteq> controllerID env \<and>
                  UpdateBackupStatus env ClaimOwner
                    (b\<lparr>Status := (Status b)\<lparr>OwnerID := controllerID env\<rparr>\<rparr>) = Inl e \<longrightarrow>
                  reconcile env backupName =
                    (if IsConflict e then None else Some e,
                     [CallUpdateBackupStatus ClaimOwner
                        (b\<lparr>Status := (Status b)\<lparr>OwnerID := controllerID env\<rparr>\<rparr>)]))"
proof -
  let ?claimed = "b\<lparr>Status := (Status b)\<lparr>OwnerID := controllerID env\<rparr>\<rparr>"
  have prelude: "reconcile_prelude env backupName =
      (case UpdateBackupStatus env ClaimOwner ?claimed of
         Inl err \<Rightarrow> if IsConflict err then Return None [CallUpdateBackupStatus ClaimOwner ?claimed]
                    else Return (Some err) [CallUpdateBackupStatus ClaimOwner ?claimed]
       | Inr stored \<Rightarrow> reconcile_resolve env stored [CallUpdateBackupStatus ClaimOwner ?claimed])"
    if "GetSettingValueExisted env = Inr img" "isResponsibleFor env b img = (True, None)"
       "OwnerID (Status b) \<noteq> controllerID env" for img
    using assms that by (simp add: reconcile_prelude_def Let_def)
  have issued: "CallUpdateBackupStatus ClaimOwner ?claimed \<in> set (snd (reconcile env backupName))"
    if "GetSettingValueExisted env = Inr img" "isResponsibleFor env b img = (True, None)"
       "OwnerID (Status b) \<noteq> controllerID env" for img
  proof -
    have "\<exists>rest. calls_of (reconcile_prelude env backupName) =
            CallUpdateBackupStatus ClaimOwner ?claimed # rest"
      unfolding prelude [OF that] by (auto simp: resolve_calls_of split: sum.splits)
    then show ?thesis
      by (cases "reconcile_prelude env backupName") (auto simp: reconcile_def split: prod.splits)
  qed
  have only_if: "\<exists>img. GetSettingValueExisted env = Inr img \<and>
               isResponsibleFor env b img = (True, None) \<and>
               OwnerID (Status b) \<noteq> controllerID env"
    if "CallUpdateBackupStatus ClaimOwner w \<in> set (snd (reconcile env backupName))" for w
    using assms claim_write_in_prelude [OF that] by (rule prelude_claim_reached)
  have errors: "reconcile env backupName =
        (if IsConflict e then None else Some e, [CallUpdateBackupStatus ClaimOwner ?claimed])"
    if "GetSettingValueExisted env = Inr img" "isResponsibleFor env b img = (True, None)"
       "OwnerID (Status b) \<noteq> controllerID env"
       "UpdateBackupStatus env ClaimOwner ?claimed = Inl e" for img e
    using that(4) by (simp add: reconcile_def prelude [OF that(1-3)])
  show ?thesis using issued only_if errors by blast
qed

theorem ownership_claim_write_witness:
  "GetBackup world_claim_conflict ''b1'' = Inr backup_foreign \<and>
   GetSettingValueExisted world_claim_conflict = Inr ''engine:v1'' \<and>
   isResponsibleFor world_claim_conflict backup_foreign ''engine:v1'' = (True, None) \<and>
   OwnerID (Status backup_foreign) \<noteq> controllerID world_claim_conflict \<and>
   UpdateBackupStatus world_claim_conflict ClaimOwner backup0 = Inl conflict \<and>
   reconcile world_claim_conflict ''b1'' = (None, [CallUpdateBackupStatus ClaimOwner backup0]) \<and>
   GetBackup world_claim_fails ''b1'' = Inr backup_foreign \<and>
   UpdateBackupStatus world_claim_fails ClaimOwner backup0 = Inl failure \<and>
   reconcile world_claim_fails ''b1'' =
     (Some failure, [CallUpdateBackupStatus ClaimOwner backup0]) \<and>
   GetBackup (world backup0) ''b1'' = Inr backup0 \<and>
   OwnerID (Status backup0) = controllerID (world backup0) \<and>
   filter (is_status_write ClaimOwner) (snd (reconcile (world backup0) ''b1'')) = []"
proof -
  have claimed: "backup_foreign\<lparr>Status := (Status backup_foreign)\<lparr>OwnerID := ''node1''\<rparr>\<rparr> = backup0"
    by (simp add: backup_foreign_def backup0_def)
  have g1: "GetBackup world_claim_conflict ''b1'' = Inr backup_foreign"
    by (simp add: world_claim_conflict_def world_def backup_foreign_def backup0_def)
  have g2: "GetBackup world_claim_fails ''b1'' = Inr backup_foreign"
    by (simp add: world_claim_fails_def world_def backup_foreign_def backup0_def)
  have g3: "GetBackup (world backup0) ''b1'' = Inr backup0"
    by (simp add: world_def backup0_def)
  have v: "GetSettingValueExisted world_claim_conflict = Inr ''engine:v1''"
    by (simp add: world_claim_conflict_def world_def)
  have v2: "GetSettingValueExisted world_claim_fails = Inr ''engine:v1''"
    by (simp add: world_claim_fails_def world_def)
  have r: "isResponsibleFor world_claim_conflict backup_foreign ''engine:v1'' = (True, None)"
    by (simp add: isResponsibleFor_def world_claim_conflict_def world_def backup_foreign_def
          backup0_def)
  have r2: "isResponsibleFor world_claim_fails backup_foreign ''engine:v1'' = (True, None)"
    by (simp add: isResponsibleFor_def world_claim_fails_def world_def backup_foreign_def
          backup0_def)
  have o: "OwnerID (Status backup_foreign) \<noteq> controllerID world_claim_conflict"
    by (simp add: world_claim_conflict_def world_def backup_foreign_def backup0_def)
  have o2: "OwnerID (Status backup_foreign) \<noteq> controllerID world_claim_fails"
    by (simp add: world_claim_fails_def world_def backup_foreign_def backup0_def)
  have o3: "OwnerID (Status backup0) = controllerID (world backup0)"
    by (simp add: world_def backup0_def)
  have id1: "controllerID world_claim_conflict = ''node1''"
    by (simp add: world_claim_conflict_def world_def)
  have id2: "controllerID world_claim_fails = ''node1''"
    by (simp add: world_claim_fails_def world_def)
  have u1: "UpdateBackupStatus world_claim_conflict ClaimOwner backup0 = Inl conflict"
    by (simp add: world_claim_conflict_def world_def)
  have u2: "UpdateBackupStatus world_claim_fails ClaimOwner backup0 = Inl failure"
    by (simp add: world_claim_fails_def world_def)
  have k: "IsConflict conflict" "\<not> IsConflict failure"
    by (simp_all add: conflict_def failure_def)
  from conjunct2 [OF ownership_claim_write [OF g1], rule_format, of "''engine:v1''" conflict]
       v r o u1 k
  have c1: "reconcile world_claim_conflict ''b1'' = (None, [CallUpdateBackupStatus ClaimOwner backup0])"
    by (simp add: id1 claimed)
  from conjunct2 [OF ownership_claim_write [OF g2], rule_format, of "''engine:v1''" failure]
       v2 r2 o2 u2 k
  have c2: "reconcile world_claim_fails ''b1'' =
      (Some failure, [CallUpdateBackupStatus ClaimOwner backup0])"
    by (simp add: id2 claimed)
  from conjunct1 [OF ownership_claim_write [OF g3]] o3
  have "\<forall>w. CallUpdateBackupStatus ClaimOwner w \<notin> set (snd (reconcile (world backup0) ''b1''))"
    by blast
  then have c3: "filter (is_status_write ClaimOwner) (snd (reconcile (world backup0) ''b1'')) = []"
    by (auto simp: filter_empty_conv dest: status_write_cases)
  show ?thesis by (intro conjI g1 g2 g3 v r o u1 u2 c1 c2 c3 o3)
qed

subsection \<open>The deletion branch\<close>

lemma prelude_calls_plain:
  assumes "reconcile_prelude env n = Proceed b bt v cs"
  shows "\<forall>c\<in>set cs. \<not> is_remote_delete c \<and> \<not> is_finalizer_removal c"
  using prelude_calls [OF assms] by auto

lemma reconcile_deletion_eq:
  assumes "reconcile_prelude env n = Proceed b bt v cs" and "\<not> ptr_IsZero (DeletionTimestamp b)"
  shows "reconcile env n = (fst (reconcile_deletion env b bt v), cs @ snd (reconcile_deletion env b bt v))"
  using assms by (simp add: reconcile_def split: prod.splits)

lemma deletion_outcomes:
  "(\<exists>e. reconcile_deletion env b bt v = (Some e, [])) \<or>
   reconcile_deletion env b bt v = (None, []) \<or>
   (\<exists>u e. DeleteBackup env u = Some e \<and> reconcile_deletion env b bt v = (Some e, [CallDeleteBackup u])) \<or>
   (\<exists>u mid. DeleteBackup env u = None \<and>
       reconcile_deletion env b bt v =
         (RemoveFinalizerForBackup env b, CallDeleteBackup u # mid @ [CallRemoveFinalizerForBackup b]) \<and>
       (\<forall>c\<in>set mid. \<not> is_remote_delete c \<and> \<not> is_finalizer_removal c)) \<or>
   (\<exists>mid. reconcile_deletion env b bt v =
         (RemoveFinalizerForBackup env b, mid @ [CallRemoveFinalizerForBackup b]) \<and>
       (\<forall>c\<in>set mid. \<not> is_remote_delete c \<and> \<not> is_finalizer_removal c))"
  by (auto simp: reconcile_deletion_def reconcile_finalize_def Let_def split: sum.splits option.splits)

text \<open>
  C2. In the deletion branch of \<^verbatim>\<open>reconcile\<close> (the first part handed the resource on, and its
  deletion timestamp is set): whenever the remote delete was issued and answered with an
  error, the invocation returns that error and no finalizer removal is issued; and a
  finalizer removal is issued only if no remote delete was issued, or the one that was
  issued succeeded.
\<close>

theorem remote_delete_failure_keeps_finalizer:
  assumes "reconcile_prelude env backupName = Proceed b bt v cs"
    and "\<not> ptr_IsZero (DeletionTimestamp b)"
  shows "(\<forall>u e. CallDeleteBackup u \<in> set (snd (reconcile env backupName)) \<and>
                DeleteBackup env u = Some e \<longrightarrow>
                fst (reconcile env backupName) = Some e \<and>
                filter is_finalizer_removal (snd (reconcile env backupName)) = []) \<and>
         (filter is_finalizer_removal (snd (reconcile env backupName)) \<noteq> [] \<longrightarrow>
            filter is_remote_delete (snd (reconcile env backupName)) = [] \<or>
            (\<exists>u. filter is_remote_delete (snd (reconcile env backupName)) = [CallDeleteBackup u] \<and>
                 DeleteBackup env u = None))"
proof -
  have eq: "reconcile env backupName =
      (fst (reconcile_deletion env b bt v), cs @ snd (reconcile_deletion env b bt v))"
    using assms by (rule reconcile_deletion_eq)
  have plain: "\<forall>c\<in>set cs. \<not> is_remote_delete c \<and> \<not> is_finalizer_removal c"
    using assms(1) by (rule prelude_calls_plain)
  then have f1: "filter is_remote_delete cs = []" and f2: "filter is_finalizer_removal cs = []"
    by (auto simp: filter_empty_conv)
  have nd: "\<And>u. CallDeleteBackup u \<notin> set cs" using plain by auto
  from deletion_outcomes [of env b bt v] show ?thesis
    unfolding eq using f1 f2 nd
    by (elim disjE exE conjE) (auto simp: filter_empty_conv)
qed


theorem remote_delete_failure_keeps_finalizer_witness:
  "reconcile_prelude world_delete_fails ''b1'' = Proceed backup_deleting target0 ''vol1'' [] \<and>
   \<not> ptr_IsZero (DeletionTimestamp backup_deleting) \<and>
   DeleteBackup world_delete_fails ''s3://bucket?backup=b1&volume=vol1'' = Some failure \<and>
   reconcile world_delete_fails ''b1'' =
     (Some failure, [CallDeleteBackup ''s3://bucket?backup=b1&volume=vol1'']) \<and>
   reconcile_prelude (world backup_deleting) ''b1'' = Proceed backup_deleting target0 ''vol1'' [] \<and>
   DeleteBackup (world backup_deleting) ''s3://bucket?backup=b1&volume=vol1'' = None \<and>
   reconcile (world backup_deleting) ''b1'' =
     (None, [CallDeleteBackup ''s3://bucket?backup=b1&volume=vol1'',
             CallUpdateBackupVolume (volume0\<lparr>bv_SyncRequestedAt := 1000\<rparr>),
             CallRemoveFinalizerForBackup backup_deleting])"
proof -
  have g1: "reconcile_prelude world_delete_fails ''b1'' = Proceed backup_deleting target0 ''vol1'' []"
    by (simp add: reconcile_prelude_def reconcile_resolve_def getBackupVolumeName_def
          isResponsibleFor_def world_delete_fails_def world_def backup_deleting_def backup0_def)
  have g2: "reconcile_prelude (world backup_deleting) ''b1'' = Proceed backup_deleting target0 ''vol1'' []"
    by (simp add: reconcile_prelude_def reconcile_resolve_def getBackupVolumeName_def
          isResponsibleFor_def world_def backup_deleting_def backup0_def)
  have d: "\<not> ptr_IsZero (DeletionTimestamp backup_deleting)"
    by (simp add: ptr_IsZero_def IsZero_def backup_deleting_def)
  have r1: "reconcile world_delete_fails ''b1'' =
     (Some failure, [CallDeleteBackup ''s3://bucket?backup=b1&volume=vol1''])"
    by (simp add: reconcile_def reconcile_prelude_def reconcile_resolve_def getBackupVolumeName_def
        isResponsibleFor_def reconcile_deletion_def ptr_IsZero_def IsZero_def
        world_delete_fails_def world_def volume0_def target0_def backup_deleting_def backup0_def)
  have r2: "reconcile (world backup_deleting) ''b1'' =
     (None, [CallDeleteBackup ''s3://bucket?backup=b1&volume=vol1'',
             CallUpdateBackupVolume (volume0\<lparr>bv_SyncRequestedAt := 1000\<rparr>),
             CallRemoveFinalizerForBackup backup_deleting])"
    by (simp add: reconcile_def reconcile_prelude_def reconcile_resolve_def getBackupVolumeName_def
        isResponsibleFor_def reconcile_deletion_def reconcile_finalize_def ptr_IsZero_def IsZero_def
        world_def volume0_def target0_def backup_deleting_def backup0_def)
  have e1: "DeleteBackup world_delete_fails ''s3://bucket?backup=b1&volume=vol1'' = Some failure"
    by (simp add: world_delete_fails_def world_def)
  have e2: "DeleteBackup (world backup_deleting) ''s3://bucket?backup=b1&volume=vol1'' = None"
    by (simp add: world_def)
  note t1 = remote_delete_failure_keeps_finalizer [OF g1 d]
  note t2 = remote_delete_failure_keeps_finalizer [OF g2 d]
  from t1 t2 show ?thesis by (intro conjI g1 g2 d r1 r2 e1 e2)
qed

text \<open>
  C3, as stated, fails. The backup \<open>b1\<close> never acquired a remote URL, and its deletion issues
  a remote delete all the same, because the backup target has a URL: the branch tests the
  URL of the target, not that of the backup. And when the lookup of the backup volume fails
  other than by not-found, the invocation returns that error and removes no finalizer.
\<close>

theorem deletion_counterexample:
  "URL (Status backup_deleting) = [] \<and>
   reconcile (world backup_deleting) ''b1'' =
     (None, [CallDeleteBackup ''s3://bucket?backup=b1&volume=vol1'',
             CallUpdateBackupVolume (volume0\<lparr>bv_SyncRequestedAt := 1000\<rparr>),
             CallRemoveFinalizerForBackup backup_deleting]) \<and>
   reconcile world_volume_fails ''b1'' = (Some failure, [])"
  by (simp add: reconcile_def reconcile_prelude_def reconcile_resolve_def getBackupVolumeName_def
        isResponsibleFor_def reconcile_deletion_def reconcile_finalize_def ptr_IsZero_def IsZero_def
        world_volume_fails_def world_def failure_def
        volume0_def target0_def backup_deleting_def backup0_def)

text \<open>
  C3, as amended. In the deletion branch, when the URL of the backup target is empty and
  the lookup of the backup volume found it or answered not-found, no remote delete is
  issued, the finalizer removal is issued once, and its answer is the result of the
  invocation.
\<close>

theorem unset_target_no_remote_delete:
  assumes "reconcile_prelude env backupName = Proceed b bt v cs"
    and "\<not> ptr_IsZero (DeletionTimestamp b)"
    and "bt_BackupTargetURL bt = []"
    and "volume_lookup_ok env v"
  shows "filter is_remote_delete (snd (reconcile env backupName)) = [] \<and>
         filter is_finalizer_removal (snd (reconcile env backupName)) =
           [CallRemoveFinalizerForBackup b] \<and>
         fst (reconcile env backupName) = RemoveFinalizerForBackup env b"
proof -
  have eq: "reconcile env backupName =
      (fst (reconcile_deletion env b bt v), cs @ snd (reconcile_deletion env b bt v))"
    using assms(1,2) by (rule reconcile_deletion_eq)
  have plain: "\<forall>c\<in>set cs. \<not> is_remote_delete c \<and> \<not> is_finalizer_removal c"
    using assms(1) by (rule prelude_calls_plain)
  then have f: "filter is_remote_delete cs = []" "filter is_finalizer_removal cs = []"
    by (auto simp: filter_empty_conv)
  show ?thesis unfolding eq using f assms(3,4)
    by (auto simp: reconcile_deletion_def reconcile_finalize_def volume_lookup_ok_def Let_def
        split: sum.splits option.splits)
qed

theorem unset_target_no_remote_delete_witness:
  "reconcile_prelude world_target_unset ''b1'' = Proceed backup_deleting target_unset ''vol1'' [] \<and>
   \<not> ptr_IsZero (DeletionTimestamp backup_deleting) \<and>
   bt_BackupTargetURL target_unset = [] \<and>
   volume_lookup_ok world_target_unset ''vol1'' \<and>
   filter is_remote_delete (snd (reconcile world_target_unset ''b1'')) = [] \<and>
   filter is_finalizer_removal (snd (reconcile world_target_unset ''b1'')) =
     [CallRemoveFinalizerForBackup backup_deleting] \<and>
   fst (reconcile world_target_unset ''b1'') = None"
proof -
  have g: "reconcile_prelude world_target_unset ''b1'' = Proceed backup_deleting target_unset ''vol1'' []"
    by (simp add: reconcile_prelude_def reconcile_resolve_def getBackupVolumeName_def
          isResponsibleFor_def world_target_unset_def world_def backup_deleting_def backup0_def)
  have d: "\<not> ptr_IsZero (DeletionTimestamp backup_deleting)"
    by (simp add: ptr_IsZero_def IsZero_def backup_deleting_def)
  have u: "bt_BackupTargetURL target_unset = []" by (simp add: target_unset_def)
  have l: "volume_lookup_ok world_target_unset ''vol1''"
    by (simp add: volume_lookup_ok_def world_target_unset_def world_def)
  have n: "RemoveFinalizerForBackup world_target_unset backup_deleting = None"
    by (simp add: world_target_unset_def world_def)
  from unset_target_no_remote_delete [OF g d u l] n show ?thesis
    by (intro conjI g d u l) simp_all
qed

subsection \<open>The body under the deferred step\<close>

lemma reconcile_body_eq:
  assumes "reconcile_prelude env n = Proceed b bt v cs" and "ptr_IsZero (DeletionTimestamp b)"
    and "reconcile_body env b bt v = (err, b', cs')"
  shows "reconcile env n = (err, cs @ cs' @ reconcile_deferred env b err b')"
  using assms by (simp add: reconcile_def)

text \<open>
  C9. For a backup that reaches the sync-skip check (the first part handed it on, it is not
  under deletion, the creation branch is not taken): if its last-synced time is not zero
  and its sync-requested time is not after the last-synced time, equality included, the
  body leaves the resource as it was and issues no call, and \<^verbatim>\<open>reconcile\<close> returns nil
  having issued nothing beyond the calls of its first part: no remote query and no status
  write.
\<close>

theorem sync_skip:
  assumes "reconcile_prelude env backupName = Proceed b bt v cs"
    and "ptr_IsZero (DeletionTimestamp b)"
    and "\<not> (spec_SnapshotName (Spec b) \<noteq> [] \<and> State (Status b) = [])"
    and "LastSyncedAt (Status b) \<noteq> 0"
    and "spec_SyncRequestedAt (Spec b) \<le> LastSyncedAt (Status b)"
  shows "reconcile_body env b bt v = (None, b, []) \<and> reconcile env backupName = (None, cs)"
proof -
  have body: "reconcile_body env b bt v = (None, b, [])"
    using assms(3-5) by (auto simp: reconcile_body_def IsZero_def After_def)
  from reconcile_body_eq [OF assms(1,2) body] body show ?thesis
    by (simp add: reconcile_deferred_def)
qed

theorem sync_skip_witness:
  "reconcile_prelude (world backup_synced) ''b1'' = Proceed backup_synced target0 ''vol1'' [] \<and>
   ptr_IsZero (DeletionTimestamp backup_synced) \<and>
   \<not> (spec_SnapshotName (Spec backup_synced) \<noteq> [] \<and> State (Status backup_synced) = []) \<and>
   LastSyncedAt (Status backup_synced) \<noteq> 0 \<and>
   spec_SyncRequestedAt (Spec backup_synced) = LastSyncedAt (Status backup_synced) \<and>
   reconcile (world backup_synced) ''b1'' = (None, [])"
proof -
  have g: "reconcile_prelude (world backup_synced) ''b1'' = Proceed backup_synced target0 ''vol1'' []"
    by (simp add: reconcile_prelude_def reconcile_resolve_def getBackupVolumeName_def
          isResponsibleFor_def world_def backup_synced_def backup0_def)
  have d: "ptr_IsZero (DeletionTimestamp backup_synced)"
    by (simp add: ptr_IsZero_def backup_synced_def backup0_def)
  have c: "\<not> (spec_SnapshotName (Spec backup_synced) \<noteq> [] \<and> State (Status backup_synced) = [])"
    by (simp add: backup_synced_def backup0_def)
  have z: "LastSyncedAt (Status backup_synced) \<noteq> 0"
    by (simp add: backup_synced_def backup0_def)
  have e: "spec_SyncRequestedAt (Spec backup_synced) = LastSyncedAt (Status backup_synced)"
    by (simp add: backup_synced_def backup0_def)
  have l: "spec_SyncRequestedAt (Spec backup_synced) \<le> LastSyncedAt (Status backup_synced)"
    using e by simp
  from sync_skip [OF g d c z l] have r: "reconcile (world backup_synced) ''b1'' = (None, [])"
    by simp
  show ?thesis by (intro conjI g d c z e r)
qed

lemma prelude_no_deferred:
  assumes "reconcile_prelude env n = Proceed b bt v cs"
  shows "filter (is_status_write DeferredStatus) cs = []"
  using prelude_calls [OF assms] by auto

lemma prelude_return_no_deferred:
  assumes "reconcile_prelude env n = Return err cs"
  shows "filter (is_status_write DeferredStatus) (snd (reconcile env n)) = []"
  using prelude_return_calls [OF assms] assms by (auto simp: reconcile_def)

lemma body_no_deferred:
  "filter (is_status_write DeferredStatus) (snd (snd (reconcile_body env b bt v))) = []"
  using body_no_status_write [of DeferredStatus _ env b bt v]
  by (fastforce simp: filter_empty_conv dest: status_write_cases)

text \<open>
  C4. For an invocation that is not a deletion and whose body returns nil, where \<open>b\<close> is the
  resource at the snapshot of line 305 and \<open>b'\<close> the resource as the body left it: the
  invocation returns nil; if the status of \<open>b'\<close> equals that of \<open>b\<close> the deferred step issues
  no call; otherwise it issues one status write of \<open>b'\<close>, followed by an enqueue of \<open>b'\<close>
  exactly when the write answered with a conflict. No other call of the invocation is a
  status write of the deferred step.
\<close>

theorem deferred_status_write:
  assumes "reconcile_prelude env backupName = Proceed b bt v cs"
    and "ptr_IsZero (DeletionTimestamp b)"
    and "reconcile_body env b bt v = (None, b', cs')"
  shows "fst (reconcile env backupName) = None \<and>
         snd (reconcile env backupName) =
           cs @ cs' @
           (if Status b' = Status b then []
            else CallUpdateBackupStatus DeferredStatus b' #
                 (case UpdateBackupStatus env DeferredStatus b' of
                    Inl e \<Rightarrow> if IsConflict e then [CallEnqueueBackup b'] else []
                  | Inr stored \<Rightarrow> [])) \<and>
         filter (is_status_write DeferredStatus) (snd (reconcile env backupName)) =
           (if Status b' = Status b then [] else [CallUpdateBackupStatus DeferredStatus b'])"
proof -
  have eq: "reconcile env backupName = (None, cs @ cs' @ reconcile_deferred env b None b')"
    using assms by (rule reconcile_body_eq)
  have f1: "filter (is_status_write DeferredStatus) cs = []"
    using assms(1) by (rule prelude_no_deferred)
  have f2: "filter (is_status_write DeferredStatus) cs' = []"
    using body_no_deferred [of env b bt v] assms(3) by simp
  show ?thesis unfolding eq using f1 f2
    by (auto simp: reconcile_deferred_def split: sum.splits)
qed

theorem deferred_status_write_witness:
  "reconcile_prelude world_found ''b1'' = Proceed backup_imported target0 ''vol1'' [] \<and>
   ptr_IsZero (DeletionTimestamp backup_imported) \<and>
   reconcile_body world_found backup_imported target0 ''vol1'' =
     (None, backup_found, [CallInspectBackupConfig ''s3://bucket?backup=b1&volume=vol1'']) \<and>
   Status backup_found \<noteq> Status backup_imported \<and>
   UpdateBackupStatus world_found DeferredStatus backup_found = Inl conflict \<and>
   reconcile world_found ''b1'' =
     (None, [CallInspectBackupConfig ''s3://bucket?backup=b1&volume=vol1'',
             CallUpdateBackupStatus DeferredStatus backup_found,
             CallEnqueueBackup backup_found]) \<and>
   reconcile_prelude (world backup_imported) ''b1'' = Proceed backup_imported target0 ''vol1'' [] \<and>
   reconcile_body (world backup_imported) backup_imported target0 ''vol1'' =
     (None, backup_imported, [CallInspectBackupConfig ''s3://bucket?backup=b1&volume=vol1'']) \<and>
   reconcile (world backup_imported) ''b1'' =
     (None, [CallInspectBackupConfig ''s3://bucket?backup=b1&volume=vol1''])"
proof -
  have g1: "reconcile_prelude world_found ''b1'' = Proceed backup_imported target0 ''vol1'' []"
    by (simp add: reconcile_prelude_def reconcile_resolve_def getBackupVolumeName_def
          isResponsibleFor_def world_found_def world_def backup_imported_def backup0_def)
  have g2: "reconcile_prelude (world backup_imported) ''b1'' = Proceed backup_imported target0 ''vol1'' []"
    by (simp add: reconcile_prelude_def reconcile_resolve_def getBackupVolumeName_def
          isResponsibleFor_def world_def backup_imported_def backup0_def)
  have d: "ptr_IsZero (DeletionTimestamp backup_imported)"
    by (simp add: ptr_IsZero_def backup_imported_def backup0_def)
  have b1: "reconcile_body world_found backup_imported target0 ''vol1'' =
      (None, backup_found, [CallInspectBackupConfig ''s3://bucket?backup=b1&volume=vol1''])"
    by (simp add: reconcile_body_def IsZero_def world_found_def world_def target0_def info0_def
          backup_found_def backup_imported_def backup0_def BackupStateCompleted_def)
  have b2: "reconcile_body (world backup_imported) backup_imported target0 ''vol1'' =
      (None, backup_imported, [CallInspectBackupConfig ''s3://bucket?backup=b1&volume=vol1''])"
    by (simp add: reconcile_body_def IsZero_def world_def target0_def
          backup_imported_def backup0_def)
  have n: "Status backup_found \<noteq> Status backup_imported"
    by (simp add: backup_found_def backup_imported_def backup0_def)
  have c: "UpdateBackupStatus world_found DeferredStatus backup_found = Inl conflict"
    by (simp add: world_found_def world_def)
  have i: "IsConflict conflict" by (simp add: conflict_def)
  from deferred_status_write [OF g1 d b1] n c i
  have r1: "reconcile world_found ''b1'' =
     (None, [CallInspectBackupConfig ''s3://bucket?backup=b1&volume=vol1'',
             CallUpdateBackupStatus DeferredStatus backup_found, CallEnqueueBackup backup_found])"
    by (simp add: prod_eq_iff)
  from deferred_status_write [OF g2 d b2]
  have r2: "reconcile (world backup_imported) ''b1'' =
     (None, [CallInspectBackupConfig ''s3://bucket?backup=b1&volume=vol1''])"
    by (simp add: prod_eq_iff)
  show ?thesis by (intro conjI g1 g2 d b1 n c r1 r2 b2)
qed

subsection \<open>The progress monitor\<close>

lemma scan_engines_not_nil: "bks \<noteq> None \<Longrightarrow> scan_engines snap engines bks \<noteq> None"
  by (induction engines arbitrary: bks) (simp_all split: option.splits)

lemma scan_engines_absent:
  "\<forall>e\<in>set engines. \<forall>b\<in>set (eng_BackupStatus e). bks_SnapshotName b \<noteq> snap \<Longrightarrow>
   scan_engines snap engines bks = bks"
  by (induction engines arbitrary: bks) (auto simp: find_Some_iff split: option.splits)

text \<open>
  While no answer holds an entry for the snapshot, the loop goes on polling: the search
  ends on the empty entry it started from, whose progress is 0.
\<close>

lemma absent_never_stops:
  "list_all (entry_absent (spec_SnapshotName (Spec (mt_backup t)))) answers \<Longrightarrow>
   monitor_poll env t answers = None"
proof (induction answers)
  case Nil
  show ?case by simp
next
  case (Cons a answers)
  then obtain engines where a: "a = Inr engines" by (cases a) auto
  with Cons.prems have "scan_engines (spec_SnapshotName (Spec (mt_backup t))) engines
      (Some empty_BackupStatus) = Some empty_BackupStatus"
    by (intro scan_engines_absent) (auto simp: list_all_iff)
  with a Cons show ?case by (simp add: empty_BackupStatus_def)
qed

text \<open>
  C1 says that a poll whose answer holds no entry for the requested snapshot sets the state
  to Unknown and ends the polling. The code does otherwise: after such a poll the loop is
  still polling, and when the next poll finds the entry at 100 percent, the loop has slept
  once and leaves the state Completed.
\<close>

theorem absent_entry_keeps_polling:
  "monitor_poll (world backup_running) task0 [Inr [engine_idle]] = None \<and>
   monitor_poll (world backup_running) task0 [Inr [engine_idle], Inr [engine_done]] =
     Some (BackupStateCompleted,
           [CallSleep, CallEventf EventTypeNormal BackupStateCompleted,
            CallUpdateBackupVolume (volume0\<lparr>bv_SyncRequestedAt := 1000\<rparr>)])"
  by (simp add: monitor_wake_def empty_BackupStatus_def engine_idle_def engine_done_def
        task0_def backup_running_def backup0_def world_def)

lemma wake_cases:
  "monitor_wake env t = [] \<or> (\<exists>bv. monitor_wake env t = [CallUpdateBackupVolume bv]) \<or>
   (\<exists>bt. monitor_wake env t = [CallUpdateBackupTarget bt])"
  by (simp add: monitor_wake_def Let_def split: sum.splits)

lemma wake_plain: "c \<in> set (monitor_wake env t) \<Longrightarrow> \<not> is_store_write_or_enqueue c"
  using wake_cases [of env t] by (elim disjE exE) simp_all

lemma poll_plain:
  "monitor_poll env t answers = Some (state, cs) \<Longrightarrow> \<forall>c\<in>set cs. \<not> is_store_write_or_enqueue c"
proof (induction answers arbitrary: state cs)
  case Nil
  then show ?case by simp
next
  case (Cons a answers)
  then show ?case using wake_plain [of _ env t]
    by (auto split: sum.splits option.splits if_splits prod.splits)
qed

lemma poll_state:
  "monitor_poll env t answers = Some (state, cs) \<Longrightarrow>
   state = BackupStateError \<or> state = BackupStateUnknown \<or> state = BackupStateCompleted"
proof (induction answers arbitrary: state cs)
  case Nil
  then show ?case by simp
next
  case (Cons a answers)
  then show ?case
    by (auto split: sum.splits option.splits if_splits prod.splits)
qed

lemma run_plain:
  assumes "monitor_run env t answers = Some (state, pre)"
  shows "filter is_store_write_or_enqueue pre = []"
proof (cases "SnapshotBackup env (Name (mt_backup t)) (spec_SnapshotName (Spec (mt_backup t)))
                (mt_url t) (mt_biName t) (mt_biChecksum t)")
  case (Some err)
  with assms show ?thesis by (auto simp: monitor_run_def Let_def)
next
  case None
  with assms obtain cs where p: "monitor_poll env t answers = Some (state, cs)"
    and c: "pre = CallSnapshotBackup (Name (mt_backup t)) (spec_SnapshotName (Spec (mt_backup t)))
                (mt_url t) (mt_biName t) (mt_biChecksum t) # cs"
    by (auto simp: monitor_run_def Let_def split: option.splits)
  from poll_plain [OF p] c show ?thesis by (auto simp: filter_empty_conv)
qed

lemma run_state:
  assumes "monitor_run env t answers = Some (state, pre)"
  shows "state = BackupStateError \<or> state = BackupStateUnknown \<or> state = BackupStateCompleted"
proof (cases "SnapshotBackup env (Name (mt_backup t)) (spec_SnapshotName (Spec (mt_backup t)))
                (mt_url t) (mt_biName t) (mt_biChecksum t)")
  case (Some err)
  with assms show ?thesis by (auto simp: monitor_run_def Let_def)
next
  case None
  with assms obtain cs where p: "monitor_poll env t answers = Some (state, cs)"
    by (auto simp: monitor_run_def Let_def split: option.splits)
  then show ?thesis by (rule poll_state)
qed

lemma status_state_eq:
  "(Status b = (Status b)\<lparr>State := state\<rparr>) = (State (Status b) = state)"
proof
  assume "Status b = (Status b)\<lparr>State := state\<rparr>"
  then have "State (Status b) = State ((Status b)\<lparr>State := state\<rparr>)" by simp
  then show "State (Status b) = state" by simp
next
  assume "State (Status b) = state"
  then show "Status b = (Status b)\<lparr>State := state\<rparr>" by auto
qed

text \<open>
  C8. On every return of the body of the monitor task, with the state and the calls the
  body computed: the state is Error, Unknown or Completed; the body issued no status write
  and no enqueue; and the calls of the whole task are those of the body followed by what
  the deferred function issues. The deferred function fetches the backup by name from the
  store. When the fetch fails, or the fetched state already is the computed state, it issues
  nothing. Otherwise it issues exactly one status write, of the fetched resource with the
  state replaced by the computed state and every other field as fetched. This holds
  whatever the write answers, a conflict included: no call follows the write.
\<close>

theorem monitor_exit_write:
  assumes "monitor_run env t answers = Some (state, pre)"
  shows "(state = BackupStateError \<or> state = BackupStateUnknown \<or> state = BackupStateCompleted) \<and>
         filter is_store_write_or_enqueue pre = [] \<and>
         monitor env t answers =
           Some (pre @
             (case GetBackup env (Name (mt_backup t)) of
                Inl err \<Rightarrow> []
              | Inr fetched \<Rightarrow>
                  if State (Status fetched) = state then []
                  else [CallUpdateBackupStatus MonitorExit
                          (fetched\<lparr>Status := (Status fetched)\<lparr>State := state\<rparr>\<rparr>)]))"
proof -
  have "monitor_exit env t state =
         (case GetBackup env (Name (mt_backup t)) of
                Inl err \<Rightarrow> []
              | Inr fetched \<Rightarrow>
                  if State (Status fetched) = state then []
                  else [CallUpdateBackupStatus MonitorExit
                          (fetched\<lparr>Status := (Status fetched)\<lparr>State := state\<rparr>\<rparr>)])"
    by (simp add: monitor_exit_def Let_def status_state_eq split: sum.splits)
  with assms have "monitor env t answers =
           Some (pre @
             (case GetBackup env (Name (mt_backup t)) of
                Inl err \<Rightarrow> []
              | Inr fetched \<Rightarrow>
                  if State (Status fetched) = state then []
                  else [CallUpdateBackupStatus MonitorExit
                          (fetched\<lparr>Status := (Status fetched)\<lparr>State := state\<rparr>\<rparr>)]))"
    by (simp add: monitor_def)
  with run_state [OF assms] run_plain [OF assms] show ?thesis by blast
qed

theorem monitor_exit_write_witness:
  "monitor_run world_transfer_fails task0 [] =
     Some (BackupStateError,
            [start0, CallEventf EventTypeWarning BackupStateError]) \<and>
   GetBackup world_transfer_fails (Name (mt_backup task0)) = Inr backup_running \<and>
   monitor world_transfer_fails task0 [] =
     Some [start0, CallEventf EventTypeWarning BackupStateError,
             CallUpdateBackupStatus MonitorExit (backup_running\<lparr>Status := (Status backup_running)\<lparr>State := BackupStateError\<rparr>\<rparr>)] \<and>
   monitor_run world_monitor_conflict task0 [Inr [engine_idle], Inr [engine_done]] =
     Some (BackupStateCompleted,
            [start0, CallSleep, CallEventf EventTypeNormal BackupStateCompleted,
             CallUpdateBackupVolume (volume0\<lparr>bv_SyncRequestedAt := 1000\<rparr>)]) \<and>
   GetBackup world_monitor_conflict (Name (mt_backup task0)) = Inr backup_running \<and>
   monitor world_monitor_conflict task0 [Inr [engine_idle], Inr [engine_done]] =
     Some [start0, CallSleep, CallEventf EventTypeNormal BackupStateCompleted,
             CallUpdateBackupVolume (volume0\<lparr>bv_SyncRequestedAt := 1000\<rparr>),
             CallUpdateBackupStatus MonitorExit (backup_running\<lparr>Status := (Status backup_running)\<lparr>State := BackupStateCompleted\<rparr>\<rparr>)] \<and>
   monitor_run world_monitor_conflict task0 [Inl failure] =
     Some (BackupStateUnknown,
            [start0, CallEventf EventTypeWarning BackupStateUnknown]) \<and>
   GetBackup world_monitor_conflict (Name (mt_backup task0)) = Inr backup_running \<and>
   monitor world_monitor_conflict task0 [Inl failure] =
     Some [start0, CallEventf EventTypeWarning BackupStateUnknown,
             CallUpdateBackupStatus MonitorExit (backup_running\<lparr>Status := (Status backup_running)\<lparr>State := BackupStateUnknown\<rparr>\<rparr>)] \<and>
   monitor_run world_monitor_conflict task0 [Inr [engine_failed]] =
     Some (BackupStateError,
            [start0, CallEventf EventTypeWarning BackupStateError]) \<and>
   GetBackup world_monitor_conflict (Name (mt_backup task0)) = Inr backup_running \<and>
   monitor world_monitor_conflict task0 [Inr [engine_failed]] =
     Some [start0, CallEventf EventTypeWarning BackupStateError,
             CallUpdateBackupStatus MonitorExit (backup_running\<lparr>Status := (Status backup_running)\<lparr>State := BackupStateError\<rparr>\<rparr>)] \<and>
   monitor_run world_already_failed task0 [] =
     Some (BackupStateError,
            [start0, CallEventf EventTypeWarning BackupStateError]) \<and>
   GetBackup world_already_failed (Name (mt_backup task0)) = Inr backup_failed \<and>
   monitor world_already_failed task0 [] =
     Some [start0, CallEventf EventTypeWarning BackupStateError] \<and>
   monitor_run world_backup_gone task0 [Inr [engine_done]] =
     Some (BackupStateCompleted,
            [start0, CallEventf EventTypeNormal BackupStateCompleted,
             CallUpdateBackupVolume (volume0\<lparr>bv_SyncRequestedAt := 1000\<rparr>)]) \<and>
   GetBackup world_backup_gone (Name (mt_backup task0)) = Inl missing \<and>
   monitor world_backup_gone task0 [Inr [engine_done]] =
     Some [start0, CallEventf EventTypeNormal BackupStateCompleted,
             CallUpdateBackupVolume (volume0\<lparr>bv_SyncRequestedAt := 1000\<rparr>)] \<and>
   UpdateBackupStatus world_monitor_conflict MonitorExit
     (backup_running\<lparr>Status := (Status backup_running)\<lparr>State := BackupStateCompleted\<rparr>\<rparr>) =
     Inl conflict"
proof -
  have ra: "monitor_run world_transfer_fails task0 [] =
     Some (BackupStateError,
            [start0, CallEventf EventTypeWarning BackupStateError])"
    by (simp add: monitor_run_def Let_def start0_def monitor_wake_def empty_BackupStatus_def
          engine_idle_def engine_done_def engine_failed_def world_transfer_fails_def world_def task0_def
          backup_running_def backup0_def)
  have fa: "GetBackup world_transfer_fails (Name (mt_backup task0)) = Inr backup_running"
    by (simp add: world_transfer_fails_def world_def task0_def backup_running_def backup_failed_def backup0_def)
  have sa: "State (Status backup_running) \<noteq> BackupStateError"
    by (simp add: backup_running_def backup0_def BackupStateError_def)
  from conjunct2 [OF conjunct2 [OF monitor_exit_write [OF ra]]] fa sa
  have ma: "monitor world_transfer_fails task0 [] =
     Some [start0, CallEventf EventTypeWarning BackupStateError,
             CallUpdateBackupStatus MonitorExit (backup_running\<lparr>Status := (Status backup_running)\<lparr>State := BackupStateError\<rparr>\<rparr>)]"
    by simp
  have rb: "monitor_run world_monitor_conflict task0 [Inr [engine_idle], Inr [engine_done]] =
     Some (BackupStateCompleted,
            [start0, CallSleep, CallEventf EventTypeNormal BackupStateCompleted,
             CallUpdateBackupVolume (volume0\<lparr>bv_SyncRequestedAt := 1000\<rparr>)])"
    by (simp add: monitor_run_def Let_def start0_def monitor_wake_def empty_BackupStatus_def
          engine_idle_def engine_done_def engine_failed_def world_monitor_conflict_def world_def task0_def
          backup_running_def backup0_def)
  have fb: "GetBackup world_monitor_conflict (Name (mt_backup task0)) = Inr backup_running"
    by (simp add: world_monitor_conflict_def world_def task0_def backup_running_def backup_failed_def backup0_def)
  have sb: "State (Status backup_running) \<noteq> BackupStateCompleted"
    by (simp add: backup_running_def backup0_def BackupStateCompleted_def)
  from conjunct2 [OF conjunct2 [OF monitor_exit_write [OF rb]]] fb sb
  have mb: "monitor world_monitor_conflict task0 [Inr [engine_idle], Inr [engine_done]] =
     Some [start0, CallSleep, CallEventf EventTypeNormal BackupStateCompleted,
             CallUpdateBackupVolume (volume0\<lparr>bv_SyncRequestedAt := 1000\<rparr>),
             CallUpdateBackupStatus MonitorExit (backup_running\<lparr>Status := (Status backup_running)\<lparr>State := BackupStateCompleted\<rparr>\<rparr>)]"
    by simp
  have rc: "monitor_run world_monitor_conflict task0 [Inl failure] =
     Some (BackupStateUnknown,
            [start0, CallEventf EventTypeWarning BackupStateUnknown])"
    by (simp add: monitor_run_def Let_def start0_def monitor_wake_def empty_BackupStatus_def
          engine_idle_def engine_done_def engine_failed_def world_monitor_conflict_def world_def task0_def
          backup_running_def backup0_def)
  have fc: "GetBackup world_monitor_conflict (Name (mt_backup task0)) = Inr backup_running"
    by (simp add: world_monitor_conflict_def world_def task0_def backup_running_def backup_failed_def backup0_def)
  have sc: "State (Status backup_running) \<noteq> BackupStateUnknown"
    by (simp add: backup_running_def backup0_def BackupStateUnknown_def)
  from conjunct2 [OF conjunct2 [OF monitor_exit_write [OF rc]]] fc sc
  have mc: "monitor world_monitor_conflict task0 [Inl failure] =
     Some [start0, CallEventf EventTypeWarning BackupStateUnknown,
             CallUpdateBackupStatus MonitorExit (backup_running\<lparr>Status := (Status backup_running)\<lparr>State := BackupStateUnknown\<rparr>\<rparr>)]"
    by simp
  have rd: "monitor_run world_monitor_conflict task0 [Inr [engine_failed]] =
     Some (BackupStateError,
            [start0, CallEventf EventTypeWarning BackupStateError])"
    by (simp add: monitor_run_def Let_def start0_def monitor_wake_def empty_BackupStatus_def
          engine_idle_def engine_done_def engine_failed_def world_monitor_conflict_def world_def task0_def
          backup_running_def backup0_def)
  have fd: "GetBackup world_monitor_conflict (Name (mt_backup task0)) = Inr backup_running"
    by (simp add: world_monitor_conflict_def world_def task0_def backup_running_def backup_failed_def backup0_def)
  have sd: "State (Status backup_running) \<noteq> BackupStateError"
    by (simp add: backup_running_def backup0_def BackupStateError_def)
  from conjunct2 [OF conjunct2 [OF monitor_exit_write [OF rd]]] fd sd
  have md: "monitor world_monitor_conflict task0 [Inr [engine_failed]] =
     Some [start0, CallEventf EventTypeWarning BackupStateError,
             CallUpdateBackupStatus MonitorExit (backup_running\<lparr>Status := (Status backup_running)\<lparr>State := BackupStateError\<rparr>\<rparr>)]"
    by simp
  have re: "monitor_run world_already_failed task0 [] =
     Some (BackupStateError,
            [start0, CallEventf EventTypeWarning BackupStateError])"
    by (simp add: monitor_run_def Let_def start0_def monitor_wake_def empty_BackupStatus_def
          engine_idle_def engine_done_def engine_failed_def world_already_failed_def world_def task0_def
          backup_running_def backup0_def)
  have fe: "GetBackup world_already_failed (Name (mt_backup task0)) = Inr backup_failed"
    by (simp add: world_already_failed_def world_def task0_def backup_running_def backup_failed_def backup0_def)
  have se: "State (Status backup_failed) = BackupStateError"
    by (simp add: backup_failed_def backup0_def BackupStateError_def)
  from conjunct2 [OF conjunct2 [OF monitor_exit_write [OF re]]] fe se
  have me: "monitor world_already_failed task0 [] =
     Some [start0, CallEventf EventTypeWarning BackupStateError]"
    by simp
  have rf: "monitor_run world_backup_gone task0 [Inr [engine_done]] =
     Some (BackupStateCompleted,
            [start0, CallEventf EventTypeNormal BackupStateCompleted,
             CallUpdateBackupVolume (volume0\<lparr>bv_SyncRequestedAt := 1000\<rparr>)])"
    by (simp add: monitor_run_def Let_def start0_def monitor_wake_def empty_BackupStatus_def
          engine_idle_def engine_done_def engine_failed_def world_backup_gone_def world_def task0_def
          backup_running_def backup0_def)
  have ff: "GetBackup world_backup_gone (Name (mt_backup task0)) = Inl missing"
    by (simp add: world_backup_gone_def world_def task0_def backup_running_def backup_failed_def backup0_def)
  from conjunct2 [OF conjunct2 [OF monitor_exit_write [OF rf]]] ff
  have mf: "monitor world_backup_gone task0 [Inr [engine_done]] =
     Some [start0, CallEventf EventTypeNormal BackupStateCompleted,
             CallUpdateBackupVolume (volume0\<lparr>bv_SyncRequestedAt := 1000\<rparr>)]"
    by simp
  have u: "UpdateBackupStatus world_monitor_conflict MonitorExit
     (backup_running\<lparr>Status := (Status backup_running)\<lparr>State := BackupStateCompleted\<rparr>\<rparr>) =
     Inl conflict"
    by (simp add: world_monitor_conflict_def world_def)
  show ?thesis by (intro conjI ra fa ma rb fb mb rc fc mc rd fd md re fe me rf ff mf u)
qed

end
